theory Spec2Isabelle
  imports Main "HOL-Library.Word"
begin

section \<open>Primitive types\<close>

text \<open>
  Byte strings (hashes, keys, signatures) are lists of bytes. Block heights and revision
  numbers are Go \<open>uint64\<close> values: 64-bit words whose addition wraps around.
\<close>

type_synonym bytes = "8 word list"
type_synonym Hash = bytes
type_synonym Signature = bytes
type_synonym PublicKey = bytes
type_synonym PrivateKey = bytes
type_synonym BlockHeight = "64 word"

text \<open>
  Modelled from the spec: the \<open>Currency\<close> type and its methods \<open>Cmp\<close>, \<open>Add\<close> and
  \<open>Sub\<close> are not among the sources. The spec describes currency as an arbitrary-precision
  unsigned value with saturating/checked arithmetic: a natural number, whose subtraction
  stops at zero. Every subtraction in the functions below is guarded by a comparison.
\<close>

type_synonym Currency = nat

definition Currency_Cmp :: "Currency \<Rightarrow> Currency \<Rightarrow> int" where
  "Currency_Cmp x y = (if x < y then - 1 else if x = y then 0 else 1)"

definition Currency_Add :: "Currency \<Rightarrow> Currency \<Rightarrow> Currency" where
  "Currency_Add x y = x + y"

definition Currency_Sub :: "Currency \<Rightarrow> Currency \<Rightarrow> Currency" where
  "Currency_Sub x y = x - y"

section \<open>Errors and panics\<close>

text \<open>
  Go errors are values. The sentinel errors of the sources are constructors; the wrappers
  \<open>errors.AddContext\<close>, \<open>errors.Extend\<close>, \<open>errors.Compose\<close> and \<open>fmt.Errorf\<close> with \<open>%w\<close>
  keep the errors they wrap. A Go panic is not a return value: a function that can panic
  has an \<open>outcome\<close>.
\<close>

datatype error =
    ErrRevisionCostTooHigh
  | ErrWithdrawalExpired
  | ErrWithdrawalExtremeFuture
  | ErrWithdrawalInvalidSignature
  | ErrNotAcceptingContracts
  | ErrLateRevision
  | ErrBadFileSize
  | ErrBadFileMerkleRoot
  | ErrEarlyWindow
  | ErrSmallWindow
  | ErrLongDuration
  | ErrBadContractOutputCounts
  | ErrBadPayoutUnlockHashes
  | ErrBadUnlockHash
  | errMaxCollateralReached
  | errCollateralBudgetExceeded
  | ErrLowHostValidOutput
  | ErrLowHostMissedOutput
  | ErrLowVoidOutput
  | ErrorString string
  | AddContext error string
  | Errorf string error
  | Extend error error
  | Composed "error list"

datatype 'a outcome = Panics string | Returns 'a

section \<open>File contracts and revisions\<close>

record SiaPublicKey =
  Algorithm :: bytes
  Key :: bytes

record UnlockConditions =
  Timelock :: BlockHeight
  PublicKeys :: "SiaPublicKey list"
  SignaturesRequired :: "64 word"

record SiacoinOutput =
  Value :: Currency
  UnlockHash :: bytes

record FileContract =
  FileSize :: "64 word"
  FileMerkleRoot :: Hash
  WindowStart :: BlockHeight
  WindowEnd :: BlockHeight
  Payout :: Currency
  ValidProofOutputs :: "SiacoinOutput list"
  MissedProofOutputs :: "SiacoinOutput list"
  UnlockHash :: bytes
  RevisionNumber :: "64 word"

record FileContractRevision =
  ParentID :: bytes
  UnlockConditions :: UnlockConditions
  NewRevisionNumber :: "64 word"
  NewFileSize :: "64 word"
  NewFileMerkleRoot :: Hash
  NewWindowStart :: BlockHeight
  NewWindowEnd :: BlockHeight
  NewValidProofOutputs :: "SiacoinOutput list"
  NewMissedProofOutputs :: "SiacoinOutput list"
  NewUnlockHash :: bytes

text \<open>The zero value of a \<open>SiacoinOutput\<close>, as \<open>make\<close> fills a fresh slice with.\<close>

definition zero_SiacoinOutput :: SiacoinOutput where
  "zero_SiacoinOutput = \<lparr>Value = 0, SiacoinOutput.UnlockHash = replicate 32 0\<rparr>"

text \<open>
  \<open>dst := make([]SiacoinOutput, n); copy(dst, src)\<close>: the first \<open>n\<close> elements of
  \<open>src\<close>, padded with zero values when \<open>src\<close> is shorter.
\<close>

definition make_copy :: "nat \<Rightarrow> SiacoinOutput list \<Rightarrow> SiacoinOutput list" where
  "make_copy n src = take n src @ replicate (n - length src) zero_SiacoinOutput"

text \<open>
  \<open>FileContractRevision.PaymentRevision\<close>. Output 0 is the renter's, output 1 the
  host's, missed output 2 the void. The steps follow the source in order: the two slice
  copies, the two fund checks (each indexes element 0 of the receiver's slice, which
  panics on an empty slice), the four assignments (indexing elements 1 and 2 of the
  receiver's slices panics on a short slice) and the increment of the revision number.
\<close>

definition PaymentRevision ::
  "FileContractRevision \<Rightarrow> Currency \<Rightarrow> (error + FileContractRevision) outcome" where
  "PaymentRevision fcr amount =
    (let valid = make_copy 2 (NewValidProofOutputs fcr);
         missed = make_copy 3 (NewMissedProofOutputs fcr)
     in
     if length (NewValidProofOutputs fcr) < 1 then Panics ''index out of range''
     else if Currency_Cmp (Value (NewValidProofOutputs fcr ! 0)) amount < 0
       then Returns (Inl (AddContext ErrRevisionCostTooHigh ''valid proof output smaller than cost''))
     else if length (NewMissedProofOutputs fcr) < 1 then Panics ''index out of range''
     else if Currency_Cmp (Value (NewMissedProofOutputs fcr ! 0)) amount < 0
       then Returns (Inl (AddContext ErrRevisionCostTooHigh ''missed proof output smaller than cost''))
     else if length (NewValidProofOutputs fcr) < 2 then Panics ''index out of range''
     else if length (NewMissedProofOutputs fcr) < 3 then Panics ''index out of range''
     else
       (let valid0 = valid[0 := (valid ! 0)\<lparr>Value :=
                        Currency_Sub (Value (NewValidProofOutputs fcr ! 0)) amount\<rparr>];
            valid1 = valid0[1 := (valid0 ! 1)\<lparr>Value :=
                        Currency_Add (Value (NewValidProofOutputs fcr ! 1)) amount\<rparr>];
            missed0 = missed[0 := (missed ! 0)\<lparr>Value :=
                        Currency_Sub (Value (NewMissedProofOutputs fcr ! 0)) amount\<rparr>];
            missed2 = missed0[2 := (missed0 ! 2)\<lparr>Value :=
                        Currency_Add (Value (NewMissedProofOutputs fcr ! 2)) amount\<rparr>]
        in Returns (Inr (fcr\<lparr>NewRevisionNumber := NewRevisionNumber fcr + 1,
                              NewValidProofOutputs := valid1,
                              NewMissedProofOutputs := missed2\<rparr>))))"

text \<open>The sum of the values of a list of outputs.\<close>

definition outputs_sum :: "SiacoinOutput list \<Rightarrow> Currency" where
  "outputs_sum outs = sum_list (map Value outs)"

section \<open>Pay by contract (renter session)\<close>

text \<open>
  The revision held by an \<open>rhp.Contract\<close>, with the fields \<open>payByContract\<close> reads and
  writes: four named outputs instead of two slices.
\<close>

record Revision =
  RevisionNumber :: "64 word"
  ValidRenterOutput :: SiacoinOutput
  ValidHostOutput :: SiacoinOutput
  MissedRenterOutput :: SiacoinOutput
  MissedHostOutput :: SiacoinOutput

record Contract =
  ID :: bytes
  Revision :: Revision
  RenterSignature :: Signature
  HostSignature :: Signature

record PayByContractRequest =
  RefundAccount :: PublicKey
  ContractID :: bytes
  ReqNewRevisionNumber :: "64 word"
  MissedHostValue :: Currency
  MissedRenterValue :: Currency
  ValidHostValue :: Currency
  ValidRenterValue :: Currency
  ReqSignature :: Signature

record payByContract_method =
  contract :: Contract
  privkey :: PrivateKey
  hostKey :: PublicKey
  refundAccountID :: PublicKey

text \<open>
  What \<open>payByContract\<close> calls outside itself: the chain manager's \<open>TipContext\<close>
  (a validation context or an error), the context's \<open>ContractSigHash\<close>, the private key's
  \<open>SignHash\<close>, the stream (\<open>rpc.WriteRequest\<close> may fail; \<open>rpc.ReadResponse\<close> fails or
  yields the host's signature, which may depend on the request sent) and the host key's
  \<open>VerifyHash\<close>. All of them are parameters.
\<close>

record 'vc session_env =
  TipContext :: "error + 'vc"
  ContractSigHash :: "'vc \<Rightarrow> Revision \<Rightarrow> Hash"
  SignHash :: "PrivateKey \<Rightarrow> Hash \<Rightarrow> Signature"
  WriteRequest :: "PayByContractRequest \<Rightarrow> error option"
  ReadResponse :: "PayByContractRequest \<Rightarrow> error + Signature"
  VerifyHash :: "PublicKey \<Rightarrow> Hash \<Rightarrow> Signature \<Rightarrow> bool"

text \<open>
  The revision update of \<open>payByContract\<close> (the block commented
  ``update the revision to pay for the usage''): a copy of the contract's revision with
  the revision number incremented and \<open>amount\<close> moved from the renter's to the host's
  valid and missed outputs.
\<close>

definition payByContract_update :: "Revision \<Rightarrow> Currency \<Rightarrow> Revision" where
  "payByContract_update r amount =
    r\<lparr>RevisionNumber := RevisionNumber r + 1,
      ValidRenterOutput := (ValidRenterOutput r)\<lparr>Value :=
         Currency_Sub (Value (ValidRenterOutput r)) amount\<rparr>,
      MissedRenterOutput := (MissedRenterOutput r)\<lparr>Value :=
         Currency_Sub (Value (MissedRenterOutput r)) amount\<rparr>,
      ValidHostOutput := (ValidHostOutput r)\<lparr>Value :=
         Currency_Add (Value (ValidHostOutput r)) amount\<rparr>,
      MissedHostOutput := (MissedHostOutput r)\<lparr>Value :=
         Currency_Add (Value (MissedHostOutput r)) amount\<rparr>\<rparr>"

definition payByContract_request ::
  "'vc session_env \<Rightarrow> payByContract_method \<Rightarrow> Revision \<Rightarrow> Hash \<Rightarrow> PayByContractRequest" where
  "payByContract_request env payment revision revisionHash =
    \<lparr>RefundAccount = refundAccountID payment,
     ContractID = ID (contract payment),
     ReqNewRevisionNumber = RevisionNumber revision,
     MissedHostValue = Value (MissedHostOutput revision),
     MissedRenterValue = Value (MissedRenterOutput revision),
     ValidHostValue = Value (ValidHostOutput revision),
     ValidRenterValue = Value (ValidRenterOutput revision),
     ReqSignature = SignHash env (privkey payment) revisionHash\<rparr>"

text \<open>
  \<open>Session.payByContract\<close>. The contract is reached through a pointer, so the function
  returns, with its error, the contract as it stands when the call ends. The local
  \<open>revision\<close> is a copy of the contract's revision struct: updating it leaves the
  contract as it is until the assignments at the end.
\<close>

definition payByContract ::
  "'vc session_env \<Rightarrow> payByContract_method \<Rightarrow> Currency \<Rightarrow> error option \<times> Contract" where
  "payByContract env payment amount =
    (let c = contract payment in
     if Currency_Cmp (Value (ValidRenterOutput (Revision c))) amount < 0
       then (Some (ErrorString ''insufficient renter funds''), c)
     else if Currency_Cmp (Value (MissedRenterOutput (Revision c))) amount < 0
       then (Some (ErrorString ''insufficient renter funds''), c)
     else
       (case TipContext env of
          Inl err \<Rightarrow> (Some (Errorf ''failed to get current validation context'' err), c)
        | Inr vc \<Rightarrow>
           (let revision = payByContract_update (Revision c) amount;
                revisionHash = ContractSigHash env vc revision;
                req = payByContract_request env payment revision revisionHash
            in
            case WriteRequest env req of
              Some err \<Rightarrow>
                (Some (Errorf ''failed to write contract payment request specifier'' err), c)
            | None \<Rightarrow>
               (case ReadResponse env req of
                  Inl err \<Rightarrow>
                    (Some (Errorf ''failed to read contract payment response'' err), c)
                | Inr respSignature \<Rightarrow>
                    if \<not> VerifyHash env (hostKey payment) revisionHash respSignature
                      then (Some (ErrorString ''could not verify host signature''), c)
                    else (None, c\<lparr>Revision := revision,
                                   RenterSignature := ReqSignature req,
                                   HostSignature := respSignature\<rparr>)))))"

section \<open>Account ids and withdrawal messages\<close>

type_synonym AccountID = string

text \<open>\<open>ZeroAccountID\<close> is the only account id that is allowed to be invalid.\<close>

definition ZeroAccountID :: AccountID where
  "ZeroAccountID = []"

record WithdrawalMessage =
  Account :: AccountID
  Expiry :: BlockHeight
  Amount :: Currency
  Nonce :: bytes

text \<open>
  The functions of other packages that the account-id code calls are parameters:
  \<^item> \<open>critical_panics\<close>: whether \<open>build.Critical\<close> aborts the caller with a panic after
    reporting its message, or reports it and returns;
  \<^item> \<open>spk_String\<close>, \<open>spk_LoadString\<close>: \<open>SiaPublicKey.String\<close> and
    \<open>SiaPublicKey.LoadString\<close>; the latter is called on a zero-valued key and yields its
    error together with the key as the call leaves it;
  \<^item> \<open>PublicKeySize\<close>: the length of the array type \<open>crypto.PublicKey\<close>;
  \<^item> \<open>crypto_VerifyHash\<close>: \<open>crypto.VerifyHash\<close>;
  \<^item> \<open>WritePrefixedBytes\<close>: the bytes the encoder writes for a byte slice, with the
    encoder's error; \<open>ReadPrefixedBytes\<close>: the byte slice the decoder reads from an
    input, with the decoder's error.
  A Go string and the byte slice it converts to are the same list of bytes.
\<close>

record externals =
  critical_panics :: bool
  spk_String :: "SiaPublicKey \<Rightarrow> string"
  spk_LoadString :: "string \<Rightarrow> error option \<times> SiaPublicKey"
  PublicKeySize :: nat
  crypto_VerifyHash :: "Hash \<Rightarrow> PublicKey \<Rightarrow> Signature \<Rightarrow> error option"
  WritePrefixedBytes :: "string \<Rightarrow> string \<times> error option"
  ReadPrefixedBytes :: "string \<Rightarrow> string \<times> error option"

text \<open>
  Calls that a claim speaks about are recorded, in order, in a trace: a report to
  \<open>build.Critical\<close>, a call of \<open>SiaPublicKey.LoadString\<close> and a call of
  \<open>crypto.VerifyHash\<close> with the key it verifies against.
\<close>

datatype event =
    Critical string
  | LoadKey string
  | Verify Hash PublicKey Signature

type_synonym 'a traced = "event list \<times> 'a outcome"

definition FromSPK :: "externals \<Rightarrow> SiaPublicKey \<Rightarrow> AccountID" where
  "FromSPK d spk = spk_String d spk"

definition IsZeroAccount :: "AccountID \<Rightarrow> bool" where
  "IsZeroAccount aid = (aid = ZeroAccountID)"

text \<open>\<open>AccountID.LoadString\<close>: the new account id, or the error with its context.\<close>

definition AccountID_LoadString :: "externals \<Rightarrow> string \<Rightarrow> error + AccountID" where
  "AccountID_LoadString d s =
    (case spk_LoadString d s of
       (Some err, spk) \<Rightarrow> Inl (AddContext err ''failed to load account id from string'')
     | (None, spk) \<Rightarrow> Inr (FromSPK d spk))"

text \<open>\<open>AccountID.MarshalSia\<close>: the bytes written and the encoder's error.\<close>

definition MarshalSia :: "externals \<Rightarrow> AccountID \<Rightarrow> string \<times> error option" where
  "MarshalSia d aid = WritePrefixedBytes d aid"

text \<open>\<open>AccountID.UnmarshalSia\<close>: the account id decoded from an input, or the error.\<close>

definition UnmarshalSia :: "externals \<Rightarrow> string \<Rightarrow> error + AccountID" where
  "UnmarshalSia d input =
    (case ReadPrefixedBytes d input of
       (idBytes, Some err) \<Rightarrow> Inl err
     | (idBytes, None) \<Rightarrow>
         if length idBytes = 0 then Inr ZeroAccountID
         else AccountID_LoadString d idBytes)"

text \<open>
  Modelled from the spec: \<open>SiaPublicKey.String\<close> and \<open>SiaPublicKey.LoadString\<close> are
  not among the sources. Per the spec, loading round-trips a public key through a
  canonical string form. A key is valid when its string form loads, to a key with that
  same string form (\<open>FromSPK\<close> assumes that the key it is given is valid).
\<close>

definition valid_key :: "externals \<Rightarrow> SiaPublicKey \<Rightarrow> bool" where
  "valid_key d spk =
    (case spk_LoadString d (spk_String d spk) of
       (None, loaded) \<Rightarrow> spk_String d loaded = spk_String d spk
     | (Some err, loaded) \<Rightarrow> False)"

text \<open>
  Modelled from the spec: per the spec an account id must decode to a valid public key or
  equal the reserved zero value, and per the source the zero id is the only account id
  that is allowed to be invalid. As a property of the two parameters: the empty string
  does not load as a public key, and every key that some string loads to is valid.
\<close>

definition canonical_string_form :: "externals \<Rightarrow> bool" where
  "canonical_string_form d =
    (fst (spk_LoadString d ZeroAccountID) \<noteq> None
     \<and> (\<forall>s spk. spk_LoadString d s = (None, spk) \<longrightarrow> valid_key d spk))"

text \<open>
  \<open>AccountID.SPK\<close>. Neither call of \<open>build.Critical\<close> is followed by a return: when
  \<open>build.Critical\<close> does not panic, the function goes on and returns the key as
  \<open>LoadString\<close> left it.
\<close>

definition SPK :: "externals \<Rightarrow> AccountID \<Rightarrow> SiaPublicKey traced" where
  "SPK d aid =
    (if IsZeroAccount aid \<and> critical_panics d
       then ([Critical ''should never use the zero account''],
             Panics ''should never use the zero account'')
     else
       (let t0 = (if IsZeroAccount aid
                    then [Critical ''should never use the zero account''] else []);
            t1 = t0 @ [LoadKey aid]
        in case spk_LoadString d aid of
             (Some err, spk) \<Rightarrow>
               (t1 @ [Critical ''account id should never fail to be loaded as a SiaPublicKey''],
                if critical_panics d
                  then Panics ''account id should never fail to be loaded as a SiaPublicKey''
                  else Returns spk)
           | (None, spk) \<Rightarrow> (t1, Returns spk)))"

text \<open>\<open>AccountID.PK\<close>: panics unless the key has the length of a \<open>crypto.PublicKey\<close>.\<close>

definition PK :: "externals \<Rightarrow> AccountID \<Rightarrow> PublicKey traced" where
  "PK d aid =
    (case SPK d aid of
       (t, Panics m) \<Rightarrow> (t, Panics m)
     | (t, Returns spk) \<Rightarrow>
         if length (Key spk) \<noteq> PublicKeySize d
           then (t, Panics ''key len mismatch between crypto.Publickey and types.SiaPublicKey'')
           else (t, Returns (Key spk)))"

definition ValidateExpiry :: "WithdrawalMessage \<Rightarrow> BlockHeight \<Rightarrow> BlockHeight \<Rightarrow> error option" where
  "ValidateExpiry wm blockHeight expiry =
    (if blockHeight > Expiry wm then Some ErrWithdrawalExpired
     else if Expiry wm > expiry then Some ErrWithdrawalExtremeFuture
     else None)"

text \<open>
  \<open>WithdrawalMessage.ValidateSignature\<close>: the argument \<open>wm.Account.PK()\<close> is evaluated
  first, then \<open>crypto.VerifyHash\<close> is called with it.
\<close>

definition ValidateSignature ::
  "externals \<Rightarrow> WithdrawalMessage \<Rightarrow> Hash \<Rightarrow> Signature \<Rightarrow> error option traced" where
  "ValidateSignature d wm hash sig =
    (case PK d (Account wm) of
       (t, Panics m) \<Rightarrow> (t, Panics m)
     | (t, Returns pk) \<Rightarrow>
         (t @ [Verify hash pk sig],
          Returns (case crypto_VerifyHash d hash pk sig of
                     Some err \<Rightarrow> Some (Extend err ErrWithdrawalInvalidSignature)
                   | None \<Rightarrow> None)))"

text \<open>
  \<open>errors.Compose\<close> of the error library: nil when every argument is nil, otherwise one
  error that holds the non-nil arguments in order.
\<close>

fun non_nil :: "error option list \<Rightarrow> error list" where
  "non_nil [] = []"
| "non_nil (None # es) = non_nil es"
| "non_nil (Some e # es) = e # non_nil es"

definition errors_Compose :: "error option list \<Rightarrow> error option" where
  "errors_Compose errs = (if non_nil errs = [] then None else Some (Composed (non_nil errs)))"

text \<open>
  \<open>WithdrawalMessage.Validate\<close>: both arguments of \<open>errors.Compose\<close> are evaluated, the
  expiry check first; a panic in the signature check ends the call.
\<close>

definition Validate ::
  "externals \<Rightarrow> WithdrawalMessage \<Rightarrow> BlockHeight \<Rightarrow> BlockHeight \<Rightarrow> Hash \<Rightarrow> Signature
     \<Rightarrow> error option traced" where
  "Validate d wm blockHeight expiry hash sig =
    (let expiryErr = ValidateExpiry wm blockHeight expiry
     in case ValidateSignature d wm hash sig of
          (t, Panics m) \<Rightarrow> (t, Panics m)
        | (t, Returns sigErr) \<Rightarrow> (t, Returns (errors_Compose [expiryErr, sigErr])))"

text \<open>Whether an event of a trace is a call of \<open>crypto.VerifyHash\<close>.\<close>

fun is_Verify :: "event \<Rightarrow> bool" where
  "is_Verify (Verify h pk s) = True"
| "is_Verify _ = False"

section \<open>Renewal gates (host)\<close>

text \<open>
  The host's settings and storage obligation, with the fields the renewal gates read
  (those the unit test of \<open>verifyRenewedContract\<close> sets, and the two values the
  obligation's methods \<open>fileSize\<close> and \<open>merkleRoot\<close> return).
\<close>

record HostExternalSettings =
  Collateral :: Currency
  MaxCollateral :: Currency
  ContractPrice :: Currency
  MaxDuration :: BlockHeight
  UnlockHash :: bytes
  StoragePrice :: Currency
  WindowSize :: BlockHeight

record HostInternalSettings =
  CollateralBudget :: Currency

record storageObligation =
  fileSize :: "64 word"
  merkleRoot :: Hash

text \<open>
  What the renewal gates use and neither the sources nor the spec define: the constant
  \<open>revisionSubmissionBuffer\<close>, the pricing functions \<open>RenewBaseCosts\<close> (base price and
  base collateral) and \<open>renewContractCollateral\<close> (the expected collateral, or an
  error), and the unlock hash of the 2-of-2 multisig of the renter's and the host's key.
\<close>

record renew_externals =
  revisionSubmissionBuffer :: BlockHeight
  RenewBaseCosts ::
    "FileContractRevision \<Rightarrow> HostExternalSettings \<Rightarrow> Currency \<Rightarrow> BlockHeight
       \<Rightarrow> Currency \<times> Currency"
  renewContractCollateral ::
    "FileContractRevision \<Rightarrow> HostExternalSettings \<Rightarrow> Currency \<Rightarrow> FileContract
       \<Rightarrow> error + Currency"
  multisig_UnlockHash :: "SiaPublicKey \<Rightarrow> SiaPublicKey \<Rightarrow> bytes"

text \<open>
  Modelled from the spec: \<open>renewAllowed\<close> is not among the sources, only its unit test
  is. Per the spec's admission gate it fails with \<open>NotAcceptingContracts\<close> if the host is not
  accepting new obligations and with \<open>LateRevision\<close> if
  \<open>windowStart <= currentHeight + revisionSubmissionBuffer\<close>; the gates are evaluated in
  the order the spec lists them, stopping at the first failure. The sum is the spec's,
  over the numbers the heights stand for.
\<close>

definition renewAllowed :: "BlockHeight \<Rightarrow> bool \<Rightarrow> BlockHeight \<Rightarrow> BlockHeight \<Rightarrow> error option" where
  "renewAllowed buffer acceptingNewContracts currentHeight windowStart =
    (if \<not> acceptingNewContracts then Some ErrNotAcceptingContracts
     else if unat windowStart \<le> unat currentHeight + unat buffer then Some ErrLateRevision
     else None)"

text \<open>
  Modelled from the spec: the gates of \<open>verifyRenewedContract\<close> (not among the sources)
  that come before the pricing derivation, as a predicate: size/root continuity, the
  three window gates and the output shape gate all pass.
\<close>

definition shape_gates_pass ::
  "renew_externals \<Rightarrow> storageObligation \<Rightarrow> FileContract \<Rightarrow> BlockHeight
     \<Rightarrow> HostExternalSettings \<Rightarrow> SiaPublicKey \<Rightarrow> SiaPublicKey \<Rightarrow> bool" where
  "shape_gates_pass x so fc currentHeight es rpk hpk =
    (FileSize fc = fileSize so
     \<and> FileMerkleRoot fc = merkleRoot so
     \<and> unat (WindowStart fc) > unat currentHeight + unat (revisionSubmissionBuffer x)
     \<and> uint (WindowEnd fc) - uint (WindowStart fc) \<ge> uint (WindowSize es)
     \<and> uint (WindowStart fc) - uint currentHeight \<le> uint (MaxDuration es)
     \<and> length (ValidProofOutputs fc) = 2 \<and> length (MissedProofOutputs fc) = 3
     \<and> SiacoinOutput.UnlockHash (ValidProofOutputs fc ! 1) = HostExternalSettings.UnlockHash es
     \<and> SiacoinOutput.UnlockHash (MissedProofOutputs fc ! 1) = HostExternalSettings.UnlockHash es
     \<and> SiacoinOutput.UnlockHash (MissedProofOutputs fc ! 2) = replicate 32 0
     \<and> FileContract.UnlockHash fc = multisig_UnlockHash x rpk hpk)"

text \<open>
  Modelled from the spec: \<open>verifyRenewedContract\<close> is not among the sources, only its
  unit test is. The gates are those of the spec's renewal verification engine from
  size/root continuity on, in the spec's order, stopping at the first failure:
  size/root continuity, window gates, output shape gate, pricing derivation, collateral
  budget gates, value gates. The expected collateral is what \<open>renewContractCollateral\<close>
  returns; an error of that function ends the check. Output 1 is the host's, missed
  output 2 the void.
\<close>

definition verifyRenewedContract ::
  "renew_externals \<Rightarrow> storageObligation \<Rightarrow> FileContract \<Rightarrow> FileContractRevision
     \<Rightarrow> BlockHeight \<Rightarrow> HostInternalSettings \<Rightarrow> HostExternalSettings \<Rightarrow> Currency
     \<Rightarrow> SiaPublicKey \<Rightarrow> SiaPublicKey \<Rightarrow> Currency \<Rightarrow> error option" where
  "verifyRenewedContract x so fc oldRevision currentHeight hs es rpcCost rpk hpk
      lockedCollateral =
    (if FileSize fc \<noteq> fileSize so then Some ErrBadFileSize
     else if FileMerkleRoot fc \<noteq> merkleRoot so then Some ErrBadFileMerkleRoot
     else if unat (WindowStart fc) \<le> unat currentHeight + unat (revisionSubmissionBuffer x)
       then Some ErrEarlyWindow
     else if uint (WindowEnd fc) - uint (WindowStart fc) < uint (WindowSize es)
       then Some ErrSmallWindow
     else if uint (WindowStart fc) - uint currentHeight > uint (MaxDuration es)
       then Some ErrLongDuration
     else if length (ValidProofOutputs fc) \<noteq> 2 \<or> length (MissedProofOutputs fc) \<noteq> 3
       then Some ErrBadContractOutputCounts
     else if SiacoinOutput.UnlockHash (ValidProofOutputs fc ! 1) \<noteq> HostExternalSettings.UnlockHash es
           \<or> SiacoinOutput.UnlockHash (MissedProofOutputs fc ! 1) \<noteq> HostExternalSettings.UnlockHash es
           \<or> SiacoinOutput.UnlockHash (MissedProofOutputs fc ! 2) \<noteq> replicate 32 0
       then Some ErrBadPayoutUnlockHashes
     else if FileContract.UnlockHash fc \<noteq> multisig_UnlockHash x rpk hpk
       then Some ErrBadUnlockHash
     else
       (case RenewBaseCosts x oldRevision es rpcCost (WindowStart fc) of
          (basePrice, baseCollateral) \<Rightarrow>
       (case renewContractCollateral x oldRevision es rpcCost fc of
          Inl err \<Rightarrow> Some err
        | Inr expectedCollateral \<Rightarrow>
            if expectedCollateral > MaxCollateral es then Some errMaxCollateralReached
            else if Currency_Add lockedCollateral expectedCollateral > CollateralBudget hs
              then Some errCollateralBudgetExceeded
            else if Value (ValidProofOutputs fc ! 1) < Currency_Add (ContractPrice es) basePrice
              then Some ErrLowHostValidOutput
            else if Value (MissedProofOutputs fc ! 1)
                     < Currency_Sub (Currency_Sub (Value (ValidProofOutputs fc ! 1)) baseCollateral)
                         basePrice
              then Some ErrLowHostMissedOutput
            else if Value (MissedProofOutputs fc ! 2) < Currency_Add baseCollateral basePrice
              then Some ErrLowVoidOutput
            else None)))"

section \<open>Example inputs\<close>

text \<open>Concrete revisions, built from lists of output values, for evaluating the functions.\<close>

definition example_outputs :: "Currency list \<Rightarrow> SiacoinOutput list" where
  "example_outputs vs = map (\<lambda>v. \<lparr>Value = v, SiacoinOutput.UnlockHash = replicate 32 0\<rparr>) vs"

definition example_fcr :: "64 word \<Rightarrow> Currency list \<Rightarrow> Currency list \<Rightarrow> FileContractRevision" where
  "example_fcr n valid missed =
    \<lparr>ParentID = [], UnlockConditions = \<lparr>Timelock = 0, PublicKeys = [], SignaturesRequired = 2\<rparr>,
     NewRevisionNumber = n, NewFileSize = 0, NewFileMerkleRoot = [],
     NewWindowStart = 0, NewWindowEnd = 0,
     NewValidProofOutputs = example_outputs valid,
     NewMissedProofOutputs = example_outputs missed,
     NewUnlockHash = []\<rparr>"

definition example_revision ::
  "64 word \<Rightarrow> Currency \<Rightarrow> Currency \<Rightarrow> Currency \<Rightarrow> Currency \<Rightarrow> Revision" where
  "example_revision n vr vh mr mh =
    \<lparr>RevisionNumber = n,
     ValidRenterOutput = \<lparr>Value = vr, SiacoinOutput.UnlockHash = []\<rparr>,
     ValidHostOutput = \<lparr>Value = vh, SiacoinOutput.UnlockHash = []\<rparr>,
     MissedRenterOutput = \<lparr>Value = mr, SiacoinOutput.UnlockHash = []\<rparr>,
     MissedHostOutput = \<lparr>Value = mh, SiacoinOutput.UnlockHash = []\<rparr>\<rparr>"

text \<open>A contract, a payment method and a session whose host countersigns every request.\<close>

definition example_contract :: Contract where
  "example_contract =
    \<lparr>ID = [1], Revision = example_revision 7 10 2 10 3, RenterSignature = [], HostSignature = []\<rparr>"

definition example_method :: payByContract_method where
  "example_method =
    \<lparr>contract = example_contract, privkey = [5], hostKey = [6], refundAccountID = [8]\<rparr>"

definition example_env :: "nat session_env" where
  "example_env =
    \<lparr>TipContext = Inr 0,
     ContractSigHash = (\<lambda>vc r. [3]),
     SignHash = (\<lambda>k h. k @ h),
     WriteRequest = (\<lambda>req. None),
     ReadResponse = (\<lambda>req. Inr [6, 3]),
     VerifyHash = (\<lambda>k h s. s = k @ h)\<rparr>"

text \<open>
  A withdrawal message, a public key and a set of externals: one key string loads to the
  key, every other string is rejected; a signature verifies when it is the key followed
  by the hash; the encoder prefixes one length byte.
\<close>

definition example_message :: "AccountID \<Rightarrow> BlockHeight \<Rightarrow> WithdrawalMessage" where
  "example_message aid expiry = \<lparr>Account = aid, Expiry = expiry, Amount = 1, Nonce = replicate 8 0\<rparr>"

definition example_key :: SiaPublicKey where
  "example_key = \<lparr>Algorithm = [101, 100], Key = replicate 32 7\<rparr>"

definition example_externals :: "bool \<Rightarrow> externals" where
  "example_externals crit =
    \<lparr>critical_panics = crit,
     spk_String = (\<lambda>spk. if length (Key spk) = 32 then ''ed25519:key'' else ''ed25519:''),
     spk_LoadString = (\<lambda>s. if s = ''ed25519:key'' then (None, example_key)
                        else (Some (ErrorString ''invalid public key string''),
                              \<lparr>Algorithm = [], Key = []\<rparr>)),
     PublicKeySize = 32,
     crypto_VerifyHash = (\<lambda>h pk s. if s = pk @ h then None
                                   else Some (ErrorString ''invalid signature'')),
     WritePrefixedBytes = (\<lambda>b. (char_of (length b) # b, None)),
     ReadPrefixedBytes = (\<lambda>inp. case inp of
                            [] \<Rightarrow> ([], Some (ErrorString ''EOF''))
                          | c # rest \<Rightarrow> if of_char c = length rest then (rest, None)
                                        else ([], Some (ErrorString ''unexpected EOF'')))\<rparr>"

text \<open>
  A renewal: pricing functions with base price 2 and base collateral 1, host settings
  with a given \<open>MaxCollateral\<close>, an obligation and a new contract that agree, and
  the two parties' keys.
\<close>

definition example_renew_externals :: renew_externals where
  "example_renew_externals =
    \<lparr>revisionSubmissionBuffer = 3,
     RenewBaseCosts = (\<lambda>oldRev es rpcCost windowStart. (2, 1)),
     renewContractCollateral = (\<lambda>oldRev es rpcCost fc.
        if Value (ValidProofOutputs fc ! 1) < ContractPrice es + 2
          then Inl (ErrorString ''ContractPrice higher than ValidHostOutput'')
          else Inr (Value (ValidProofOutputs fc ! 1) - ContractPrice es - 2)),
     multisig_UnlockHash = (\<lambda>rpk hpk. Key rpk @ Key hpk)\<rparr>"

definition example_settings :: "Currency \<Rightarrow> HostExternalSettings" where
  "example_settings maxCollateral =
    \<lparr>Collateral = 1, MaxCollateral = maxCollateral, ContractPrice = 5, MaxDuration = 100,
     HostExternalSettings.UnlockHash = [2], StoragePrice = 1, WindowSize = 10\<rparr>"

definition example_obligation :: storageObligation where
  "example_obligation = \<lparr>fileSize = 123, merkleRoot = [1]\<rparr>"

definition example_fc :: FileContract where
  "example_fc =
    \<lparr>FileSize = 123, FileMerkleRoot = [1], WindowStart = 4, WindowEnd = 14, Payout = 0,
     ValidProofOutputs = [\<lparr>Value = 10, SiacoinOutput.UnlockHash = [1]\<rparr>,
                          \<lparr>Value = 20, SiacoinOutput.UnlockHash = [2]\<rparr>],
     MissedProofOutputs = [\<lparr>Value = 10, SiacoinOutput.UnlockHash = [1]\<rparr>,
                           \<lparr>Value = 19, SiacoinOutput.UnlockHash = [2]\<rparr>,
                           \<lparr>Value = 15, SiacoinOutput.UnlockHash = replicate 32 0\<rparr>],
     FileContract.UnlockHash = [8, 9], FileContract.RevisionNumber = 0\<rparr>"

definition example_rpk :: SiaPublicKey where
  "example_rpk = \<lparr>Algorithm = [101, 100], Key = [8]\<rparr>"

definition example_hpk :: SiaPublicKey where
  "example_hpk = \<lparr>Algorithm = [101, 100], Key = [9]\<rparr>"

section \<open>Payment revisions\<close>

lemmas example_defs = example_outputs_def example_fcr_def example_revision_def
lemmas currency_defs = Currency_Cmp_def Currency_Add_def Currency_Sub_def

lemma length_ge2_cases:
  assumes "2 \<le> length xs"
  obtains x0 x1 rest where "xs = x0 # x1 # rest"
  using assms by (cases xs; cases "tl xs") auto

lemma length_ge3_cases:
  assumes "3 \<le> length xs"
  obtains x0 x1 x2 rest where "xs = x0 # x1 # x2 # rest"
  using assms by (cases xs; cases "tl xs"; cases "tl (tl xs)") auto

text \<open>
  On a revision with at least two valid and three missed outputs whose renter outputs
  cover the amount, \<open>PaymentRevision\<close> neither panics nor fails, and this is the revision
  it returns.
\<close>

lemma PaymentRevision_funded:
  assumes "2 \<le> length (NewValidProofOutputs fcr)" and "3 \<le> length (NewMissedProofOutputs fcr)"
    and "amount \<le> Value (NewValidProofOutputs fcr ! 0)"
    and "amount \<le> Value (NewMissedProofOutputs fcr ! 0)"
  shows "PaymentRevision fcr amount = Returns (Inr (fcr\<lparr>
      NewRevisionNumber := NewRevisionNumber fcr + 1,
      NewValidProofOutputs :=
        [(NewValidProofOutputs fcr ! 0)\<lparr>Value := Value (NewValidProofOutputs fcr ! 0) - amount\<rparr>,
         (NewValidProofOutputs fcr ! 1)\<lparr>Value := Value (NewValidProofOutputs fcr ! 1) + amount\<rparr>],
      NewMissedProofOutputs :=
        [(NewMissedProofOutputs fcr ! 0)\<lparr>Value := Value (NewMissedProofOutputs fcr ! 0) - amount\<rparr>,
         NewMissedProofOutputs fcr ! 1,
         (NewMissedProofOutputs fcr ! 2)\<lparr>Value := Value (NewMissedProofOutputs fcr ! 2) + amount\<rparr>]\<rparr>))"
proof -
  obtain v0 v1 vs where v: "NewValidProofOutputs fcr = v0 # v1 # vs"
    using assms(1) by (rule length_ge2_cases)
  obtain m0 m1 m2 ms where m: "NewMissedProofOutputs fcr = m0 # m1 # m2 # ms"
    using assms(2) by (rule length_ge3_cases)
  show ?thesis
    using assms(3,4)
    by (simp add: PaymentRevision_def v m make_copy_def currency_defs Let_def)
qed

text \<open>
  C1 (as amended). For a revision with at least two valid-proof and three missed-proof
  outputs whose renter outputs (index 0) are both at least \<open>amount\<close>,
  \<open>PaymentRevision\<close> returns a revision with the revision number incremented, \<open>amount\<close>
  taken from the renter's valid and missed outputs and added to the host's valid output
  (index 1) and to the void missed output (index 2); the host's missed output (index 1)
  keeps its value. The revision update of \<open>payByContract\<close> increments the revision
  number, takes \<open>amount\<close> from the renter's valid and missed outputs and adds it to the
  host's valid and missed outputs.
\<close>

theorem payment_moves_amount:
  "(2 \<le> length (NewValidProofOutputs fcr) \<and> 3 \<le> length (NewMissedProofOutputs fcr)
      \<and> amount \<le> Value (NewValidProofOutputs fcr ! 0)
      \<and> amount \<le> Value (NewMissedProofOutputs fcr ! 0)
    \<longrightarrow> (\<exists>rev. PaymentRevision fcr amount = Returns (Inr rev)
          \<and> NewRevisionNumber rev = NewRevisionNumber fcr + 1
          \<and> Value (NewValidProofOutputs rev ! 0) + amount = Value (NewValidProofOutputs fcr ! 0)
          \<and> Value (NewMissedProofOutputs rev ! 0) + amount = Value (NewMissedProofOutputs fcr ! 0)
          \<and> Value (NewValidProofOutputs rev ! 1) = Value (NewValidProofOutputs fcr ! 1) + amount
          \<and> Value (NewMissedProofOutputs rev ! 1) = Value (NewMissedProofOutputs fcr ! 1)
          \<and> Value (NewMissedProofOutputs rev ! 2) = Value (NewMissedProofOutputs fcr ! 2) + amount))
   \<and> (amount \<le> Value (ValidRenterOutput r) \<and> amount \<le> Value (MissedRenterOutput r)
    \<longrightarrow> RevisionNumber (payByContract_update r amount) = RevisionNumber r + 1
      \<and> Value (ValidRenterOutput (payByContract_update r amount)) + amount
          = Value (ValidRenterOutput r)
      \<and> Value (MissedRenterOutput (payByContract_update r amount)) + amount
          = Value (MissedRenterOutput r)
      \<and> Value (ValidHostOutput (payByContract_update r amount))
          = Value (ValidHostOutput r) + amount
      \<and> Value (MissedHostOutput (payByContract_update r amount))
          = Value (MissedHostOutput r) + amount)"
proof (intro conjI impI)
  assume h: "2 \<le> length (NewValidProofOutputs fcr) \<and> 3 \<le> length (NewMissedProofOutputs fcr)
      \<and> amount \<le> Value (NewValidProofOutputs fcr ! 0)
      \<and> amount \<le> Value (NewMissedProofOutputs fcr ! 0)"
  then have "PaymentRevision fcr amount = Returns (Inr (fcr\<lparr>
      NewRevisionNumber := NewRevisionNumber fcr + 1,
      NewValidProofOutputs :=
        [(NewValidProofOutputs fcr ! 0)\<lparr>Value := Value (NewValidProofOutputs fcr ! 0) - amount\<rparr>,
         (NewValidProofOutputs fcr ! 1)\<lparr>Value := Value (NewValidProofOutputs fcr ! 1) + amount\<rparr>],
      NewMissedProofOutputs :=
        [(NewMissedProofOutputs fcr ! 0)\<lparr>Value := Value (NewMissedProofOutputs fcr ! 0) - amount\<rparr>,
         NewMissedProofOutputs fcr ! 1,
         (NewMissedProofOutputs fcr ! 2)\<lparr>Value := Value (NewMissedProofOutputs fcr ! 2) + amount\<rparr>]\<rparr>))"
    by (simp add: PaymentRevision_funded)
  with h show "\<exists>rev. PaymentRevision fcr amount = Returns (Inr rev)
          \<and> NewRevisionNumber rev = NewRevisionNumber fcr + 1
          \<and> Value (NewValidProofOutputs rev ! 0) + amount = Value (NewValidProofOutputs fcr ! 0)
          \<and> Value (NewMissedProofOutputs rev ! 0) + amount = Value (NewMissedProofOutputs fcr ! 0)
          \<and> Value (NewValidProofOutputs rev ! 1) = Value (NewValidProofOutputs fcr ! 1) + amount
          \<and> Value (NewMissedProofOutputs rev ! 1) = Value (NewMissedProofOutputs fcr ! 1)
          \<and> Value (NewMissedProofOutputs rev ! 2) = Value (NewMissedProofOutputs fcr ! 2) + amount"
    by simp
qed (simp_all add: payByContract_update_def currency_defs)

text \<open>
  The theorem at a revision with valid outputs 10 and 2 and missed outputs 10, 2 and 3,
  and at a session revision with the same renter funds, paying 4.
\<close>

theorem payment_moves_amount_witness:
  "2 \<le> length (NewValidProofOutputs (example_fcr 7 [10, 2] [10, 2, 3]))
   \<and> 3 \<le> length (NewMissedProofOutputs (example_fcr 7 [10, 2] [10, 2, 3]))
   \<and> (4::nat) \<le> Value (NewValidProofOutputs (example_fcr 7 [10, 2] [10, 2, 3]) ! 0)
   \<and> (4::nat) \<le> Value (NewMissedProofOutputs (example_fcr 7 [10, 2] [10, 2, 3]) ! 0)
   \<and> PaymentRevision (example_fcr 7 [10, 2] [10, 2, 3]) 4
      = Returns (Inr (example_fcr 8 [6, 6] [6, 2, 7]))
   \<and> (4::nat) \<le> Value (ValidRenterOutput (example_revision 7 10 2 10 3))
   \<and> (4::nat) \<le> Value (MissedRenterOutput (example_revision 7 10 2 10 3))
   \<and> payByContract_update (example_revision 7 10 2 10 3) 4 = example_revision 8 6 6 6 7"
  using payment_moves_amount [of "example_fcr 7 [10, 2] [10, 2, 3]" 4 "example_revision 7 10 2 10 3"]
  by (simp add: example_defs PaymentRevision_def make_copy_def currency_defs payByContract_update_def)

text \<open>
  C1 as stated fails for \<open>PaymentRevision\<close>: paying 4 from a revision whose host's
  missed output is 2 leaves that output at 2 (the 4 go to the void output), not at 6.
\<close>

theorem host_missed_output_counterexample:
  "PaymentRevision (example_fcr 7 [10, 2] [10, 2, 3]) 4
      = Returns (Inr (example_fcr 8 [6, 6] [6, 2, 7]))
   \<and> Value (NewMissedProofOutputs (example_fcr 8 [6, 6] [6, 2, 7]) ! 1) = 2
   \<and> Value (NewMissedProofOutputs (example_fcr 7 [10, 2] [10, 2, 3]) ! 1) + 4 = 6"
  by (simp add: example_defs PaymentRevision_def make_copy_def currency_defs)

lemma word_lt_succ: "(w :: 64 word) \<noteq> - 1 \<Longrightarrow> w < w + 1"
  using inc_less_eq_self_iff_eq [of w] by auto

text \<open>
  C2 (as amended). For a revision with at least two valid-proof and three missed-proof
  outputs whose renter outputs are both at least \<open>amount\<close>, the revision that
  \<open>PaymentRevision\<close> returns has exactly two valid-proof and three missed-proof outputs;
  their sums equal the sums of the first two valid-proof and the first three missed-proof
  outputs of the input, hence the input's sums when the input has exactly two and three
  outputs. The revision update of \<open>payByContract\<close> keeps the sum of the two valid
  outputs and the sum of the two missed outputs.
\<close>

theorem payment_conserves_sums:
  "(2 \<le> length (NewValidProofOutputs fcr) \<and> 3 \<le> length (NewMissedProofOutputs fcr)
      \<and> amount \<le> Value (NewValidProofOutputs fcr ! 0)
      \<and> amount \<le> Value (NewMissedProofOutputs fcr ! 0)
    \<longrightarrow> (\<exists>rev. PaymentRevision fcr amount = Returns (Inr rev)
          \<and> length (NewValidProofOutputs rev) = 2 \<and> length (NewMissedProofOutputs rev) = 3
          \<and> outputs_sum (NewValidProofOutputs rev) = outputs_sum (take 2 (NewValidProofOutputs fcr))
          \<and> outputs_sum (NewMissedProofOutputs rev) = outputs_sum (take 3 (NewMissedProofOutputs fcr))
          \<and> (length (NewValidProofOutputs fcr) = 2
              \<longrightarrow> outputs_sum (NewValidProofOutputs rev) = outputs_sum (NewValidProofOutputs fcr))
          \<and> (length (NewMissedProofOutputs fcr) = 3
              \<longrightarrow> outputs_sum (NewMissedProofOutputs rev) = outputs_sum (NewMissedProofOutputs fcr))))
   \<and> (amount \<le> Value (ValidRenterOutput r) \<and> amount \<le> Value (MissedRenterOutput r)
    \<longrightarrow> Value (ValidRenterOutput (payByContract_update r amount))
          + Value (ValidHostOutput (payByContract_update r amount))
        = Value (ValidRenterOutput r) + Value (ValidHostOutput r)
      \<and> Value (MissedRenterOutput (payByContract_update r amount))
          + Value (MissedHostOutput (payByContract_update r amount))
        = Value (MissedRenterOutput r) + Value (MissedHostOutput r))"
proof (intro conjI impI)
  assume h: "2 \<le> length (NewValidProofOutputs fcr) \<and> 3 \<le> length (NewMissedProofOutputs fcr)
      \<and> amount \<le> Value (NewValidProofOutputs fcr ! 0)
      \<and> amount \<le> Value (NewMissedProofOutputs fcr ! 0)"
  obtain v0 v1 vs where v: "NewValidProofOutputs fcr = v0 # v1 # vs"
    using h by (blast elim: length_ge2_cases)
  obtain m0 m1 m2 ms where m: "NewMissedProofOutputs fcr = m0 # m1 # m2 # ms"
    using h by (blast elim: length_ge3_cases)
  from h v m show "\<exists>rev. PaymentRevision fcr amount = Returns (Inr rev)
          \<and> length (NewValidProofOutputs rev) = 2 \<and> length (NewMissedProofOutputs rev) = 3
          \<and> outputs_sum (NewValidProofOutputs rev) = outputs_sum (take 2 (NewValidProofOutputs fcr))
          \<and> outputs_sum (NewMissedProofOutputs rev) = outputs_sum (take 3 (NewMissedProofOutputs fcr))
          \<and> (length (NewValidProofOutputs fcr) = 2
              \<longrightarrow> outputs_sum (NewValidProofOutputs rev) = outputs_sum (NewValidProofOutputs fcr))
          \<and> (length (NewMissedProofOutputs fcr) = 3
              \<longrightarrow> outputs_sum (NewMissedProofOutputs rev) = outputs_sum (NewMissedProofOutputs fcr))"
    by (simp add: PaymentRevision_funded outputs_sum_def)
qed (simp_all add: payByContract_update_def currency_defs)

text \<open>
  The theorem at valid outputs 10 and 2 (sum 12) and missed outputs 10, 2 and 3 (sum 15),
  paying 4.
\<close>

theorem payment_conserves_sums_witness:
  "2 \<le> length (NewValidProofOutputs (example_fcr 7 [10, 2] [10, 2, 3]))
   \<and> 3 \<le> length (NewMissedProofOutputs (example_fcr 7 [10, 2] [10, 2, 3]))
   \<and> (4::nat) \<le> Value (NewValidProofOutputs (example_fcr 7 [10, 2] [10, 2, 3]) ! 0)
   \<and> (4::nat) \<le> Value (NewMissedProofOutputs (example_fcr 7 [10, 2] [10, 2, 3]) ! 0)
   \<and> PaymentRevision (example_fcr 7 [10, 2] [10, 2, 3]) 4
      = Returns (Inr (example_fcr 8 [6, 6] [6, 2, 7]))
   \<and> outputs_sum (NewValidProofOutputs (example_fcr 8 [6, 6] [6, 2, 7])) = 12
   \<and> outputs_sum (NewValidProofOutputs (example_fcr 7 [10, 2] [10, 2, 3])) = 12
   \<and> outputs_sum (NewMissedProofOutputs (example_fcr 8 [6, 6] [6, 2, 7])) = 15
   \<and> outputs_sum (NewMissedProofOutputs (example_fcr 7 [10, 2] [10, 2, 3])) = 15
   \<and> (4::nat) \<le> Value (ValidRenterOutput (example_revision 7 10 2 10 3))
   \<and> (4::nat) \<le> Value (MissedRenterOutput (example_revision 7 10 2 10 3))
   \<and> payByContract_update (example_revision 7 10 2 10 3) 4 = example_revision 8 6 6 6 7"
  using payment_conserves_sums [of "example_fcr 7 [10, 2] [10, 2, 3]" 4 "example_revision 7 10 2 10 3"]
  by (simp add: example_defs PaymentRevision_def make_copy_def currency_defs
      payByContract_update_def outputs_sum_def)

text \<open>
  C2 as stated fails: a revision with three valid-proof outputs 10, 0 and 5 (sum 15)
  satisfies the claim's premises, and paying 1 returns a revision with the two valid-proof
  outputs 9 and 1 (sum 10); the third output is not copied.
\<close>

theorem extra_output_dropped_counterexample:
  "2 \<le> length (NewValidProofOutputs (example_fcr 7 [10, 0, 5] [10, 0, 0]))
   \<and> 3 \<le> length (NewMissedProofOutputs (example_fcr 7 [10, 0, 5] [10, 0, 0]))
   \<and> PaymentRevision (example_fcr 7 [10, 0, 5] [10, 0, 0]) 1
      = Returns (Inr (example_fcr 8 [9, 1] [9, 0, 1]))
   \<and> outputs_sum (NewValidProofOutputs (example_fcr 7 [10, 0, 5] [10, 0, 0])) = 15
   \<and> outputs_sum (NewValidProofOutputs (example_fcr 8 [9, 1] [9, 0, 1])) = 10"
  by (simp add: example_defs PaymentRevision_def make_copy_def currency_defs outputs_sum_def)

text \<open>
  C9 (as amended). For a revision with sufficient renter funds whose revision number is
  not the largest 64-bit value, the revision returned by \<open>PaymentRevision\<close> has a
  strictly greater revision number; so has the revision update of \<open>payByContract\<close>.
\<close>

theorem revision_number_increases:
  "(2 \<le> length (NewValidProofOutputs fcr) \<and> 3 \<le> length (NewMissedProofOutputs fcr)
      \<and> amount \<le> Value (NewValidProofOutputs fcr ! 0)
      \<and> amount \<le> Value (NewMissedProofOutputs fcr ! 0)
      \<and> NewRevisionNumber fcr \<noteq> - 1
    \<longrightarrow> (\<exists>rev. PaymentRevision fcr amount = Returns (Inr rev)
          \<and> NewRevisionNumber rev > NewRevisionNumber fcr))
   \<and> (RevisionNumber r \<noteq> - 1
    \<longrightarrow> RevisionNumber (payByContract_update r amount) > RevisionNumber r)"
  by (simp add: PaymentRevision_funded payByContract_update_def word_lt_succ)

text \<open>
  The theorem at revision number 7, which becomes 8.
\<close>

theorem revision_number_increases_witness:
  "2 \<le> length (NewValidProofOutputs (example_fcr 7 [10, 2] [10, 2, 3]))
   \<and> 3 \<le> length (NewMissedProofOutputs (example_fcr 7 [10, 2] [10, 2, 3]))
   \<and> (4::nat) \<le> Value (NewValidProofOutputs (example_fcr 7 [10, 2] [10, 2, 3]) ! 0)
   \<and> (4::nat) \<le> Value (NewMissedProofOutputs (example_fcr 7 [10, 2] [10, 2, 3]) ! 0)
   \<and> NewRevisionNumber (example_fcr 7 [10, 2] [10, 2, 3]) \<noteq> - 1
   \<and> PaymentRevision (example_fcr 7 [10, 2] [10, 2, 3]) 4
      = Returns (Inr (example_fcr 8 [6, 6] [6, 2, 7]))
   \<and> NewRevisionNumber (example_fcr 8 [6, 6] [6, 2, 7])
      > NewRevisionNumber (example_fcr 7 [10, 2] [10, 2, 3])
   \<and> RevisionNumber (example_revision 7 10 2 10 3) \<noteq> - 1
   \<and> RevisionNumber (payByContract_update (example_revision 7 10 2 10 3) 4)
      > RevisionNumber (example_revision 7 10 2 10 3)"
  using revision_number_increases [of "example_fcr 7 [10, 2] [10, 2, 3]" 4 "example_revision 7 10 2 10 3"]
  by (simp add: example_defs PaymentRevision_def make_copy_def currency_defs
      payByContract_update_def)

text \<open>
  C9 as stated fails at the largest 64-bit revision number, \<open>2^64 - 1\<close>: the increment
  wraps around to 0, in \<open>PaymentRevision\<close> and in the revision update of
  \<open>payByContract\<close> alike.
\<close>

theorem revision_number_wraps_counterexample:
  "PaymentRevision (example_fcr 18446744073709551615 [10, 2] [10, 2, 3]) 4
      = Returns (Inr (example_fcr 0 [6, 6] [6, 2, 7]))
   \<and> \<not> NewRevisionNumber (example_fcr 0 [6, 6] [6, 2, 7])
        > NewRevisionNumber (example_fcr 18446744073709551615 [10, 2] [10, 2, 3])
   \<and> payByContract_update (example_revision 18446744073709551615 10 2 10 3) 4
      = example_revision 0 6 6 6 7
   \<and> \<not> RevisionNumber (example_revision 0 6 6 6 7)
        > RevisionNumber (example_revision 18446744073709551615 10 2 10 3)"
  by (simp add: example_defs PaymentRevision_def make_copy_def currency_defs
      payByContract_update_def)

section \<open>Paying by contract\<close>

text \<open>
  The outcomes of \<open>payByContract\<close>, one per return statement of the source.
\<close>

lemma payByContract_cases:
  fixes env :: "'vc session_env" and payment :: payByContract_method and amount :: Currency
  defines "c \<equiv> contract payment"
  defines "revision \<equiv> payByContract_update (Revision c) amount"
  defines "req \<equiv> (\<lambda>vc. payByContract_request env payment revision (ContractSigHash env vc revision))"
  shows "payByContract env payment amount =
    (if Value (ValidRenterOutput (Revision c)) < amount \<or> Value (MissedRenterOutput (Revision c)) < amount
       then (Some (ErrorString ''insufficient renter funds''), c)
     else case TipContext env of
       Inl err \<Rightarrow> (Some (Errorf ''failed to get current validation context'' err), c)
     | Inr vc \<Rightarrow>
        (case WriteRequest env (req vc) of
           Some err \<Rightarrow> (Some (Errorf ''failed to write contract payment request specifier'' err), c)
         | None \<Rightarrow>
            (case ReadResponse env (req vc) of
               Inl err \<Rightarrow> (Some (Errorf ''failed to read contract payment response'' err), c)
             | Inr s \<Rightarrow>
                 if VerifyHash env (hostKey payment) (ContractSigHash env vc revision) s
                   then (None, c\<lparr>Revision := revision, RenterSignature := ReqSignature (req vc),
                                  HostSignature := s\<rparr>)
                   else (Some (ErrorString ''could not verify host signature''), c))))"
  unfolding c_def revision_def req_def
  by (simp add: payByContract_def Let_def currency_defs split: sum.split option.split)

text \<open>
  C6. \<open>payByContract\<close> returns no error exactly when the renter's valid and missed
  outputs cover the amount, the validation context is available, the request is written,
  a response is read and the host's signature in it verifies against the host key over
  the hash computed from the updated revision. Whenever it returns an error, the
  contract is unchanged; with a renter output smaller than the amount the error is
  ``insufficient renter funds''. When it returns no error, the contract holds the updated
  revision, the renter's signature of the request and the host's verified signature.
\<close>

theorem payByContract_commit_after_verify:
  fixes env :: "'vc session_env" and payment :: payByContract_method and amount :: Currency
  defines "revision \<equiv> payByContract_update (Revision (contract payment)) amount"
  defines "req \<equiv> (\<lambda>vc. payByContract_request env payment revision (ContractSigHash env vc revision))"
  shows "(fst (payByContract env payment amount) = None \<longleftrightarrow>
            amount \<le> Value (ValidRenterOutput (Revision (contract payment)))
          \<and> amount \<le> Value (MissedRenterOutput (Revision (contract payment)))
          \<and> (\<exists>vc. TipContext env = Inr vc \<and> WriteRequest env (req vc) = None
                \<and> (\<exists>s. ReadResponse env (req vc) = Inr s
                      \<and> VerifyHash env (hostKey payment) (ContractSigHash env vc revision) s)))
       \<and> (fst (payByContract env payment amount) \<noteq> None
            \<longrightarrow> snd (payByContract env payment amount) = contract payment)
       \<and> (Value (ValidRenterOutput (Revision (contract payment))) < amount
            \<or> Value (MissedRenterOutput (Revision (contract payment))) < amount
            \<longrightarrow> payByContract env payment amount
                  = (Some (ErrorString ''insufficient renter funds''), contract payment))
       \<and> (fst (payByContract env payment amount) = None
            \<longrightarrow> (\<exists>vc s. TipContext env = Inr vc \<and> ReadResponse env (req vc) = Inr s
                  \<and> VerifyHash env (hostKey payment) (ContractSigHash env vc revision) s
                  \<and> snd (payByContract env payment amount)
                      = (contract payment)\<lparr>Revision := revision,
                           RenterSignature := ReqSignature (req vc), HostSignature := s\<rparr>))"
  unfolding revision_def req_def payByContract_cases
  by (auto split: sum.splits option.splits)

text \<open>
  The theorem at a session whose host signs correctly, where the payment of 4 is
  committed, and at one whose host returns a wrong signature, where the contract stays
  as it was.
\<close>

theorem payByContract_commit_after_verify_witness:
  "fst (payByContract example_env example_method 4) = None
   \<and> snd (payByContract example_env example_method 4)
      = example_contract\<lparr>Revision := example_revision 8 6 6 6 7,
           RenterSignature := [5, 3], HostSignature := [6, 3]\<rparr>
   \<and> fst (payByContract (example_env\<lparr>ReadResponse := (\<lambda>req. Inr [0])\<rparr>) example_method 4) \<noteq> None
   \<and> payByContract (example_env\<lparr>ReadResponse := (\<lambda>req. Inr [0])\<rparr>) example_method 4
      = (Some (ErrorString ''could not verify host signature''), example_contract)"
  using payByContract_commit_after_verify [of example_env example_method 4]
    payByContract_commit_after_verify [of "example_env\<lparr>ReadResponse := (\<lambda>req. Inr [0])\<rparr>" example_method 4]
  by (simp add: payByContract_cases example_env_def example_method_def example_contract_def
      example_revision_def payByContract_update_def payByContract_request_def currency_defs)

section \<open>Withdrawal messages\<close>

lemmas externals_defs = example_externals_def example_message_def example_key_def
lemmas account_defs = Validate_def ValidateSignature_def ValidateExpiry_def PK_def SPK_def
  IsZeroAccount_def ZeroAccountID_def errors_Compose_def

text \<open>
  C4. \<open>ValidateExpiry\<close> returns \<open>ErrWithdrawalExpired\<close> exactly when the current
  height is greater than the message's expiry, \<open>ErrWithdrawalExtremeFuture\<close> exactly
  when the current height is at most the expiry and the expiry is greater than the
  maximum future expiry, and no error exactly in the remaining case. A message whose
  expiry is the height before the current one (the current height is not 0) is expired; a
  message whose expiry is the current height is not, and passes when the current height
  is within the maximum future expiry.
\<close>

theorem ValidateExpiry_cases:
  "(ValidateExpiry wm currentHeight maxFutureExpiry = Some ErrWithdrawalExpired
      \<longleftrightarrow> currentHeight > Expiry wm)
   \<and> (ValidateExpiry wm currentHeight maxFutureExpiry = Some ErrWithdrawalExtremeFuture
      \<longleftrightarrow> currentHeight \<le> Expiry wm \<and> Expiry wm > maxFutureExpiry)
   \<and> (ValidateExpiry wm currentHeight maxFutureExpiry = None
      \<longleftrightarrow> currentHeight \<le> Expiry wm \<and> Expiry wm \<le> maxFutureExpiry)
   \<and> (currentHeight \<noteq> 0
      \<longrightarrow> ValidateExpiry (wm\<lparr>Expiry := currentHeight - 1\<rparr>) currentHeight maxFutureExpiry
            = Some ErrWithdrawalExpired)
   \<and> ValidateExpiry (wm\<lparr>Expiry := currentHeight\<rparr>) currentHeight maxFutureExpiry
        \<noteq> Some ErrWithdrawalExpired
   \<and> (currentHeight \<le> maxFutureExpiry
      \<longrightarrow> ValidateExpiry (wm\<lparr>Expiry := currentHeight\<rparr>) currentHeight maxFutureExpiry = None)"
proof -
  have dec: "currentHeight \<noteq> 0 \<Longrightarrow> currentHeight - 1 < currentHeight"
    using less_eq_dec_self_iff_eq [of currentHeight] by auto
  show ?thesis
    using dec by (auto simp add: ValidateExpiry_def)
qed

text \<open>
  The theorem at current height 100 and maximum future expiry 200: expiry 99 is expired,
  expiry 100 passes.
\<close>

theorem ValidateExpiry_cases_witness:
  "(100 :: 64 word) \<noteq> 0
   \<and> ValidateExpiry (example_message [] 99) 100 200 = Some ErrWithdrawalExpired
   \<and> (100 :: 64 word) \<le> 200
   \<and> ValidateExpiry (example_message [] 100) 100 200 = None"
  using ValidateExpiry_cases [of "example_message [] 0" 100 200]
  by (simp add: example_message_def)

text \<open>
  Key recovery from the zero account panics and calls no verification, provided
  \<open>build.Critical\<close> panics or the empty string does not load to a key of the size of a
  \<open>crypto.PublicKey\<close>.
\<close>

lemma PK_zero_panics:
  assumes "IsZeroAccount aid"
    and "critical_panics d \<or> length (Key (snd (spk_LoadString d ZeroAccountID))) \<noteq> PublicKeySize d"
  shows "(\<exists>m. snd (PK d aid) = Panics m) \<and> \<not> list_ex is_Verify (fst (PK d aid))
         \<and> (critical_panics d \<longrightarrow> fst (PK d aid) = [Critical ''should never use the zero account''])"
proof (cases "critical_panics d")
  case True
  with assms(1) show ?thesis by (simp add: PK_def SPK_def)
next
  case False
  obtain err spk where l: "spk_LoadString d ZeroAccountID = (err, spk)"
    by (cases "spk_LoadString d ZeroAccountID")
  from False assms(2) l have k: "length (Key spk) \<noteq> PublicKeySize d" by simp
  from assms(1) have z: "aid = ZeroAccountID" by (simp add: IsZeroAccount_def)
  show ?thesis
    using False k l z by (cases err) (simp_all add: PK_def SPK_def IsZeroAccount_def)
qed

text \<open>
  What \<open>SPK\<close> does on the zero account: a panic at the first report when
  \<open>build.Critical\<close> panics; otherwise a call of \<open>LoadString\<close> on the zero id, whose
  key is returned.
\<close>

lemma SPK_zero:
  assumes "IsZeroAccount aid"
  shows "SPK d aid =
    (if critical_panics d
       then ([Critical ''should never use the zero account''],
             Panics ''should never use the zero account'')
     else ([Critical ''should never use the zero account'', LoadKey ZeroAccountID]
             @ (if fst (spk_LoadString d ZeroAccountID) = None then []
                else [Critical ''account id should never fail to be loaded as a SiaPublicKey'']),
           Returns (snd (spk_LoadString d ZeroAccountID))))"
proof -
  from assms have z: "aid = ZeroAccountID" by (simp add: IsZeroAccount_def)
  obtain err spk where l: "spk_LoadString d ZeroAccountID = (err, spk)"
    by (cases "spk_LoadString d ZeroAccountID")
  show ?thesis
    by (cases err) (simp_all add: SPK_def z l IsZeroAccount_def)
qed

text \<open>
  The three outcomes of \<open>ValidateSignature\<close> on a message with the zero account.
\<close>

lemma ValidateSignature_zero:
  assumes "IsZeroAccount (Account wm)"
  shows "ValidateSignature d wm hash sig =
    (if critical_panics d
       then ([Critical ''should never use the zero account''],
             Panics ''should never use the zero account'')
     else if length (Key (snd (spk_LoadString d ZeroAccountID))) \<noteq> PublicKeySize d
       then ([Critical ''should never use the zero account'', LoadKey ZeroAccountID]
               @ (if fst (spk_LoadString d ZeroAccountID) = None then []
                  else [Critical ''account id should never fail to be loaded as a SiaPublicKey'']),
             Panics ''key len mismatch between crypto.Publickey and types.SiaPublicKey'')
     else ([Critical ''should never use the zero account'', LoadKey ZeroAccountID]
             @ (if fst (spk_LoadString d ZeroAccountID) = None then []
                else [Critical ''account id should never fail to be loaded as a SiaPublicKey''])
             @ [Verify hash (Key (snd (spk_LoadString d ZeroAccountID))) sig],
           Returns (case crypto_VerifyHash d hash (Key (snd (spk_LoadString d ZeroAccountID))) sig of
                      Some err \<Rightarrow> Some (Extend err ErrWithdrawalInvalidSignature)
                    | None \<Rightarrow> None)))"
  by (simp add: ValidateSignature_def PK_def SPK_zero [OF assms])

text \<open>
  C3 (as amended). For a withdrawal message whose account is the zero account: when
  \<open>build.Critical\<close> panics, \<open>ValidateSignature\<close> and \<open>Validate\<close> panic at the
  report of the zero account, with neither a key load nor a verification. When
  \<open>build.Critical\<close> returns, \<open>LoadString\<close> is called on the zero id, and
  \<open>crypto.VerifyHash\<close> is called exactly when that call leaves a key of the size of a
  \<open>crypto.PublicKey\<close>. Whenever \<open>build.Critical\<close> panics or \<open>LoadString\<close> leaves
  no key of that size for the empty string, \<open>PK\<close> yields no public key but panics,
  \<open>ValidateSignature\<close> and \<open>Validate\<close> panic, so neither returns success, and
  neither calls \<open>crypto.VerifyHash\<close>.
\<close>

theorem zero_account_validation:
  assumes "IsZeroAccount (Account wm)"
  shows "(critical_panics d \<longrightarrow>
            ValidateSignature d wm hash sig
              = ([Critical ''should never use the zero account''],
                 Panics ''should never use the zero account'')
          \<and> Validate d wm blockHeight expiry hash sig
              = ([Critical ''should never use the zero account''],
                 Panics ''should never use the zero account''))
       \<and> (\<not> critical_panics d \<longrightarrow>
            LoadKey ZeroAccountID \<in> set (fst (ValidateSignature d wm hash sig))
          \<and> LoadKey ZeroAccountID \<in> set (fst (Validate d wm blockHeight expiry hash sig))
          \<and> (list_ex is_Verify (fst (ValidateSignature d wm hash sig))
               \<longleftrightarrow> length (Key (snd (spk_LoadString d ZeroAccountID))) = PublicKeySize d)
          \<and> (list_ex is_Verify (fst (Validate d wm blockHeight expiry hash sig))
               \<longleftrightarrow> length (Key (snd (spk_LoadString d ZeroAccountID))) = PublicKeySize d))
       \<and> (critical_panics d
            \<or> length (Key (snd (spk_LoadString d ZeroAccountID))) \<noteq> PublicKeySize d \<longrightarrow>
            (\<exists>m. snd (PK d (Account wm)) = Panics m)
          \<and> (\<exists>m. snd (ValidateSignature d wm hash sig) = Panics m)
          \<and> \<not> list_ex is_Verify (fst (ValidateSignature d wm hash sig))
          \<and> (\<exists>m. snd (Validate d wm blockHeight expiry hash sig) = Panics m)
          \<and> \<not> list_ex is_Verify (fst (Validate d wm blockHeight expiry hash sig)))"
proof -
  note vs = ValidateSignature_zero [OF assms, of d hash sig]
  have v: "fst (Validate d wm blockHeight expiry hash sig) = fst (ValidateSignature d wm hash sig)"
    and vp: "\<And>m. snd (ValidateSignature d wm hash sig) = Panics m
               \<Longrightarrow> snd (Validate d wm blockHeight expiry hash sig) = Panics m"
    by (cases "ValidateSignature d wm hash sig"; cases "snd (ValidateSignature d wm hash sig)";
        simp add: Validate_def)+
  have pk: "critical_panics d
            \<or> length (Key (snd (spk_LoadString d ZeroAccountID))) \<noteq> PublicKeySize d
          \<Longrightarrow> \<exists>m. snd (PK d (Account wm)) = Panics m"
    using PK_zero_panics [OF assms, of d] by simp
  show ?thesis
  proof (intro conjI impI)
    assume c: "critical_panics d"
    then show a: "ValidateSignature d wm hash sig
              = ([Critical ''should never use the zero account''],
                 Panics ''should never use the zero account'')"
      by (simp add: vs)
    then show "Validate d wm blockHeight expiry hash sig
              = ([Critical ''should never use the zero account''],
                 Panics ''should never use the zero account'')"
      by (simp add: Validate_def)
  next
    assume n: "\<not> critical_panics d"
    then show l: "LoadKey ZeroAccountID \<in> set (fst (ValidateSignature d wm hash sig))"
      by (simp add: vs)
    then show "LoadKey ZeroAccountID \<in> set (fst (Validate d wm blockHeight expiry hash sig))"
      by (simp add: v)
    from n show i: "list_ex is_Verify (fst (ValidateSignature d wm hash sig))
               \<longleftrightarrow> length (Key (snd (spk_LoadString d ZeroAccountID))) = PublicKeySize d"
      by (simp add: vs)
    then show "list_ex is_Verify (fst (Validate d wm blockHeight expiry hash sig))
               \<longleftrightarrow> length (Key (snd (spk_LoadString d ZeroAccountID))) = PublicKeySize d"
      by (simp add: v)
  next
    assume h: "critical_panics d
            \<or> length (Key (snd (spk_LoadString d ZeroAccountID))) \<noteq> PublicKeySize d"
    then show "\<exists>m. snd (PK d (Account wm)) = Panics m" by (rule pk)
    from h show p: "\<exists>m. snd (ValidateSignature d wm hash sig) = Panics m"
      by (auto simp add: vs)
    from h show nv: "\<not> list_ex is_Verify (fst (ValidateSignature d wm hash sig))"
      by (auto simp add: vs)
    from p show "\<exists>m. snd (Validate d wm blockHeight expiry hash sig) = Panics m"
      using vp by blast
    from nv show "\<not> list_ex is_Verify (fst (Validate d wm blockHeight expiry hash sig))"
      by (simp add: v)
  qed
qed

text \<open>
  The theorem at externals that reject the empty string, with a \<open>build.Critical\<close>
  that panics and with one that returns.
\<close>

theorem zero_account_validation_witness:
  "IsZeroAccount (Account (example_message ZeroAccountID 5))
   \<and> critical_panics (example_externals True)
   \<and> Validate (example_externals True) (example_message ZeroAccountID 5) 5 20 [1] [2]
       = ([Critical ''should never use the zero account''],
          Panics ''should never use the zero account'')
   \<and> \<not> critical_panics (example_externals False)
   \<and> length (Key (snd (spk_LoadString (example_externals False) ZeroAccountID)))
       \<noteq> PublicKeySize (example_externals False)
   \<and> Validate (example_externals False) (example_message ZeroAccountID 5) 5 20 [1] [2]
       = ([Critical ''should never use the zero account'', LoadKey ZeroAccountID,
           Critical ''account id should never fail to be loaded as a SiaPublicKey''],
          Panics ''key len mismatch between crypto.Publickey and types.SiaPublicKey'')"
  using zero_account_validation [of "example_message ZeroAccountID 5" "example_externals False" "[1]" "[2]" 5 20]
    zero_account_validation [of "example_message ZeroAccountID 5" "example_externals True" "[1]" "[2]" 5 20]
  by (simp add: externals_defs account_defs)

text \<open>
  C3 as stated fails where \<open>build.Critical\<close> returns: for a message with the zero
  account \<open>ValidateSignature\<close> calls \<open>LoadString\<close> on the zero id, an attempt at
  public-key recovery, before it panics on the length of the key.
\<close>

theorem zero_account_key_load_counterexample:
  "IsZeroAccount (Account (example_message ZeroAccountID 5))
   \<and> ValidateSignature (example_externals False) (example_message ZeroAccountID 5) [1] [2]
       = ([Critical ''should never use the zero account'', LoadKey ZeroAccountID,
           Critical ''account id should never fail to be loaded as a SiaPublicKey''],
          Panics ''key len mismatch between crypto.Publickey and types.SiaPublicKey'')"
  by (simp add: externals_defs account_defs)

lemma errors_Compose_pair:
  "errors_Compose [a, b] =
    (case (a, b) of (None, None) \<Rightarrow> None | (Some x, None) \<Rightarrow> Some (Composed [x])
      | (None, Some y) \<Rightarrow> Some (Composed [y]) | (Some x, Some y) \<Rightarrow> Some (Composed [x, y]))"
  by (cases a; cases b) (simp_all add: errors_Compose_def)

text \<open>
  C5 (as amended). For a withdrawal message from whose account \<open>PK\<close> returns a public
  key, \<open>Validate\<close> runs the expiry check and the signature check (the signature is
  verified once, against that key) and returns the composition of both results: no
  error exactly when both checks pass, and an error holding both failures, the expiry
  failure first, when both checks fail. For a message from whose account \<open>PK\<close> panics,
  \<open>ValidateSignature\<close> and \<open>Validate\<close> panic and return nothing.
\<close>

theorem Validate_aggregates:
  "(snd (PK d (Account wm)) = Returns pk \<longrightarrow>
      snd (ValidateSignature d wm hash sig)
        = Returns (case crypto_VerifyHash d hash pk sig of
                     Some err \<Rightarrow> Some (Extend err ErrWithdrawalInvalidSignature) | None \<Rightarrow> None)
    \<and> fst (Validate d wm blockHeight expiry hash sig)
        = fst (PK d (Account wm)) @ [Verify hash pk sig]
    \<and> (\<exists>sigErr. snd (ValidateSignature d wm hash sig) = Returns sigErr
         \<and> snd (Validate d wm blockHeight expiry hash sig)
             = Returns (errors_Compose [ValidateExpiry wm blockHeight expiry, sigErr])
         \<and> (snd (Validate d wm blockHeight expiry hash sig) = Returns None
              \<longleftrightarrow> ValidateExpiry wm blockHeight expiry = None \<and> sigErr = None)
         \<and> (\<forall>e1 e2. ValidateExpiry wm blockHeight expiry = Some e1 \<and> sigErr = Some e2
              \<longrightarrow> snd (Validate d wm blockHeight expiry hash sig)
                    = Returns (Some (Composed [e1, e2])))))
   \<and> (snd (PK d (Account wm)) = Panics m \<longrightarrow>
        snd (ValidateSignature d wm hash sig) = Panics m
      \<and> snd (Validate d wm blockHeight expiry hash sig) = Panics m)"
proof (intro conjI impI)
  assume p: "snd (PK d (Account wm)) = Panics m"
  then obtain t where "PK d (Account wm) = (t, Panics m)" by (cases "PK d (Account wm)") auto
  then show "snd (ValidateSignature d wm hash sig) = Panics m"
    and "snd (Validate d wm blockHeight expiry hash sig) = Panics m"
    by (simp_all add: Validate_def ValidateSignature_def)
next
  assume r: "snd (PK d (Account wm)) = Returns pk"
  then obtain t where pk: "PK d (Account wm) = (t, Returns pk)"
    by (cases "PK d (Account wm)") auto
  define sigErr where "sigErr = (case crypto_VerifyHash d hash pk sig of
                     Some err \<Rightarrow> Some (Extend err ErrWithdrawalInvalidSignature) | None \<Rightarrow> None)"
  have vs: "ValidateSignature d wm hash sig = (t @ [Verify hash pk sig], Returns sigErr)"
    by (simp add: ValidateSignature_def pk sigErr_def)
  have v: "Validate d wm blockHeight expiry hash sig
      = (t @ [Verify hash pk sig], Returns (errors_Compose [ValidateExpiry wm blockHeight expiry, sigErr]))"
    by (simp add: Validate_def vs)
  show "snd (ValidateSignature d wm hash sig)
        = Returns (case crypto_VerifyHash d hash pk sig of
                     Some err \<Rightarrow> Some (Extend err ErrWithdrawalInvalidSignature) | None \<Rightarrow> None)"
    by (simp add: vs sigErr_def)
  show "fst (Validate d wm blockHeight expiry hash sig) = fst (PK d (Account wm)) @ [Verify hash pk sig]"
    by (simp add: v pk)
  show "\<exists>sigErr. snd (ValidateSignature d wm hash sig) = Returns sigErr
         \<and> snd (Validate d wm blockHeight expiry hash sig)
             = Returns (errors_Compose [ValidateExpiry wm blockHeight expiry, sigErr])
         \<and> (snd (Validate d wm blockHeight expiry hash sig) = Returns None
              \<longleftrightarrow> ValidateExpiry wm blockHeight expiry = None \<and> sigErr = None)
         \<and> (\<forall>e1 e2. ValidateExpiry wm blockHeight expiry = Some e1 \<and> sigErr = Some e2
              \<longrightarrow> snd (Validate d wm blockHeight expiry hash sig)
                    = Returns (Some (Composed [e1, e2])))"
    by (rule exI [of _ sigErr])
       (auto simp add: vs v errors_Compose_pair split: option.splits)
qed

text \<open>
  The theorem at a message with a loadable account: expired and with a wrong signature
  both failures are returned; in time and with the right signature none is. At an
  account that does not load, the call panics.
\<close>

theorem Validate_aggregates_witness:
  "snd (PK (example_externals False) (Account (example_message ''ed25519:key'' 5)))
      = Returns (replicate 32 7)
   \<and> Validate (example_externals False) (example_message ''ed25519:key'' 5) 9 20 [1] [2]
      = ([LoadKey ''ed25519:key'', Verify [1] (replicate 32 7) [2]],
         Returns (Some (Composed [ErrWithdrawalExpired,
            Extend (ErrorString ''invalid signature'') ErrWithdrawalInvalidSignature])))
   \<and> Validate (example_externals False) (example_message ''ed25519:key'' 9) 9 20 [1]
        (replicate 32 7 @ [1])
      = ([LoadKey ''ed25519:key'', Verify [1] (replicate 32 7) (replicate 32 7 @ [1])],
         Returns None)
   \<and> snd (PK (example_externals False) (Account (example_message ''zzz'' 5)))
      = Panics ''key len mismatch between crypto.Publickey and types.SiaPublicKey''
   \<and> snd (Validate (example_externals False) (example_message ''zzz'' 5) 9 20 [1] [2])
      = Panics ''key len mismatch between crypto.Publickey and types.SiaPublicKey''"
  using Validate_aggregates [of "example_externals False" "example_message ''ed25519:key'' 5"
      "replicate 32 7" "[1]" "[2]" 9 20]
    Validate_aggregates [of "example_externals False" "example_message ''zzz'' 5" _ _ _ _ _
      "''key len mismatch between crypto.Publickey and types.SiaPublicKey''"]
  by (simp add: externals_defs account_defs)

text \<open>
  C5 as stated fails for a message with the zero account: the message is expired, yet
  \<open>Validate\<close> returns no aggregate reporting it; the call panics during key recovery,
  whether \<open>build.Critical\<close> panics or not.
\<close>

theorem Validate_zero_account_counterexample:
  "ValidateExpiry (example_message ZeroAccountID 5) 9 20 = Some ErrWithdrawalExpired
   \<and> Validate (example_externals False) (example_message ZeroAccountID 5) 9 20 [1] [2]
       = ([Critical ''should never use the zero account'', LoadKey [],
           Critical ''account id should never fail to be loaded as a SiaPublicKey''],
          Panics ''key len mismatch between crypto.Publickey and types.SiaPublicKey'')
   \<and> Validate (example_externals True) (example_message ZeroAccountID 5) 9 20 [1] [2]
       = ([Critical ''should never use the zero account''],
          Panics ''should never use the zero account'')"
  by (simp add: externals_defs account_defs)

section \<open>Account id encoding\<close>

text \<open>
  With a canonical string form, the string form of a loaded key is not the zero id and
  loads as an account id to itself.
\<close>

lemma canonical_nonempty:
  assumes "canonical_string_form d" and "spk_LoadString d s = (None, spk)"
  shows "spk_String d spk \<noteq> ZeroAccountID"
    and "AccountID_LoadString d (spk_String d spk) = Inr (spk_String d spk)"
proof -
  from assms have v: "valid_key d spk" and z: "fst (spk_LoadString d ZeroAccountID) \<noteq> None"
    by (auto simp add: canonical_string_form_def)
  from v obtain loaded where l: "spk_LoadString d (spk_String d spk) = (None, loaded)"
    and e: "spk_String d loaded = spk_String d spk"
    by (auto simp add: valid_key_def split: prod.splits option.splits)
  from l z show "spk_String d spk \<noteq> ZeroAccountID" by auto
  from l e show "AccountID_LoadString d (spk_String d spk) = Inr (spk_String d spk)"
    by (simp add: AccountID_LoadString_def FromSPK_def)
qed

text \<open>
  C10. Where the decoder reads back the zero id from what the encoder writes for it,
  decoding the encoding of the zero account yields the zero account. Where the decoder
  reads back a valid key's string form from what the encoder writes for it, \<open>FromSPK\<close>
  makes that string form the account id, and decoding its encoding yields the same
  account id. A decoder error is returned as it is. An empty payload decodes to the zero
  account. A non-empty payload that does not load as a public key yields the load error
  with its context; one that loads decodes to the string form of the loaded key, which,
  with a canonical string form, is not the zero account and is a valid account id (it
  loads to itself). So, with a canonical string form, a payload decodes to the zero
  account exactly when it is empty.
\<close>

theorem AccountID_marshal_roundtrip:
  "(ReadPrefixedBytes d (fst (WritePrefixedBytes d ZeroAccountID)) = (ZeroAccountID, None)
      \<longrightarrow> UnmarshalSia d (fst (MarshalSia d ZeroAccountID)) = Inr ZeroAccountID)
   \<and> (ReadPrefixedBytes d (fst (WritePrefixedBytes d (spk_String d spk))) = (spk_String d spk, None)
       \<and> valid_key d spk
      \<longrightarrow> FromSPK d spk = spk_String d spk
        \<and> UnmarshalSia d (fst (MarshalSia d (FromSPK d spk))) = Inr (FromSPK d spk))
   \<and> (ReadPrefixedBytes d input = (payload, Some err) \<longrightarrow> UnmarshalSia d input = Inl err)
   \<and> (ReadPrefixedBytes d input = ([], None) \<longrightarrow> UnmarshalSia d input = Inr ZeroAccountID)
   \<and> (ReadPrefixedBytes d input = (payload, None) \<and> payload \<noteq> []
       \<and> spk_LoadString d payload = (Some err, loaded)
      \<longrightarrow> UnmarshalSia d input = Inl (AddContext err ''failed to load account id from string''))
   \<and> (ReadPrefixedBytes d input = (payload, None) \<and> payload \<noteq> []
       \<and> spk_LoadString d payload = (None, loaded)
      \<longrightarrow> UnmarshalSia d input = Inr (spk_String d loaded)
        \<and> (canonical_string_form d
            \<longrightarrow> spk_String d loaded \<noteq> ZeroAccountID
              \<and> AccountID_LoadString d (spk_String d loaded) = Inr (spk_String d loaded)))
   \<and> (canonical_string_form d \<and> ReadPrefixedBytes d input = (payload, None)
      \<longrightarrow> (UnmarshalSia d input = Inr ZeroAccountID \<longleftrightarrow> payload = []))"
proof (intro conjI impI)
  assume "ReadPrefixedBytes d (fst (WritePrefixedBytes d (spk_String d spk))) = (spk_String d spk, None)
       \<and> valid_key d spk"
  then show "UnmarshalSia d (fst (MarshalSia d (FromSPK d spk))) = Inr (FromSPK d spk)"
    by (auto simp add: UnmarshalSia_def MarshalSia_def AccountID_LoadString_def FromSPK_def
        ZeroAccountID_def valid_key_def split: prod.splits option.splits)
next
  assume h: "ReadPrefixedBytes d input = (payload, None) \<and> payload \<noteq> []
       \<and> spk_LoadString d payload = (None, loaded)"
  then show "UnmarshalSia d input = Inr (spk_String d loaded)"
    by (simp add: UnmarshalSia_def AccountID_LoadString_def FromSPK_def)
  assume c: "canonical_string_form d"
  from h c show "spk_String d loaded \<noteq> ZeroAccountID"
    by (blast dest: canonical_nonempty(1))
  from h c show "AccountID_LoadString d (spk_String d loaded) = Inr (spk_String d loaded)"
    by (blast dest: canonical_nonempty(2))
next
  assume h: "canonical_string_form d \<and> ReadPrefixedBytes d input = (payload, None)"
  show "UnmarshalSia d input = Inr ZeroAccountID \<longleftrightarrow> payload = []"
  proof (cases "payload = []")
    case True
    with h show ?thesis by (simp add: UnmarshalSia_def)
  next
    case False
    obtain e loaded where l: "spk_LoadString d payload = (e, loaded)"
      by (cases "spk_LoadString d payload")
    show ?thesis
    proof (cases e)
      case None
      with h l have "spk_String d loaded \<noteq> ZeroAccountID"
        by (blast dest: canonical_nonempty(1))
      with h l None False show ?thesis
        by (simp add: UnmarshalSia_def AccountID_LoadString_def FromSPK_def)
    next
      case (Some a)
      with h l False show ?thesis
        by (simp add: UnmarshalSia_def AccountID_LoadString_def)
    qed
  qed
qed (simp_all add: UnmarshalSia_def MarshalSia_def AccountID_LoadString_def FromSPK_def
       ZeroAccountID_def)

lemma example_canonical: "canonical_string_form (example_externals c)"
  by (auto simp add: canonical_string_form_def valid_key_def externals_defs ZeroAccountID_def
      split: if_splits)

text \<open>
  The theorem at externals with a one-byte length prefix and one loadable key string:
  the zero account and the key's account id are decoded from their encodings, the
  payload \<open>abc\<close> is rejected, a wrong length prefix is a decoder error, and the key
  string decodes to itself.
\<close>

theorem AccountID_marshal_roundtrip_witness:
  "ReadPrefixedBytes (example_externals False)
        (fst (WritePrefixedBytes (example_externals False) ZeroAccountID)) = (ZeroAccountID, None)
   \<and> UnmarshalSia (example_externals False) (fst (MarshalSia (example_externals False) ZeroAccountID))
      = Inr ZeroAccountID
   \<and> spk_String (example_externals False) example_key = ''ed25519:key''
   \<and> ReadPrefixedBytes (example_externals False)
        (fst (WritePrefixedBytes (example_externals False) ''ed25519:key''))
      = (''ed25519:key'', None)
   \<and> valid_key (example_externals False) example_key
   \<and> UnmarshalSia (example_externals False)
        (fst (MarshalSia (example_externals False) (FromSPK (example_externals False) example_key)))
      = Inr ''ed25519:key''
   \<and> ReadPrefixedBytes (example_externals False) (CHR 0x03 # ''abc'') = (''abc'', None)
   \<and> spk_LoadString (example_externals False) ''abc''
      = (Some (ErrorString ''invalid public key string''), \<lparr>Algorithm = [], Key = []\<rparr>)
   \<and> UnmarshalSia (example_externals False) (CHR 0x03 # ''abc'')
      = Inl (AddContext (ErrorString ''invalid public key string'')
               ''failed to load account id from string'')
   \<and> ReadPrefixedBytes (example_externals False) (CHR 0x05 # ''abc'')
      = ([], Some (ErrorString ''unexpected EOF''))
   \<and> UnmarshalSia (example_externals False) (CHR 0x05 # ''abc'')
      = Inl (ErrorString ''unexpected EOF'')
   \<and> canonical_string_form (example_externals False)
   \<and> ReadPrefixedBytes (example_externals False) (CHR 0x0B # ''ed25519:key'')
      = (''ed25519:key'', None)
   \<and> spk_LoadString (example_externals False) ''ed25519:key'' = (None, example_key)
   \<and> UnmarshalSia (example_externals False) (CHR 0x0B # ''ed25519:key'') = Inr ''ed25519:key''"
  using AccountID_marshal_roundtrip [of "example_externals False" example_key
      "CHR 0x03 # ''abc''" "''abc''" "ErrorString ''invalid public key string''"
      "\<lparr>Algorithm = [], Key = []\<rparr>"]
    AccountID_marshal_roundtrip [of "example_externals False" example_key
      "CHR 0x05 # ''abc''" "[]" "ErrorString ''unexpected EOF''" example_key]
    AccountID_marshal_roundtrip [of "example_externals False" example_key
      "CHR 0x0B # ''ed25519:key''" "''ed25519:key''" "ErrorString ''x''" example_key]
    example_canonical [of False]
  by (simp add: externals_defs MarshalSia_def FromSPK_def ZeroAccountID_def valid_key_def
      UnmarshalSia_def AccountID_LoadString_def)

section \<open>Renewal gates\<close>

lemmas renew_example_defs = example_renew_externals_def example_settings_def
  example_obligation_def example_fc_def example_rpk_def example_hpk_def

text \<open>
  C7. \<open>renewAllowed\<close> makes its two checks in order. It fails with
  \<open>ErrNotAcceptingContracts\<close> whenever the host is not accepting new contracts. The
  window check is the one an accepting host reaches: the result is \<open>ErrLateRevision\<close>
  exactly when the host is accepting and
  \<open>windowStart <= currentHeight + revisionSubmissionBuffer\<close>, and the call passes
  exactly when the host is accepting and the window starts later. For an accepting host,
  \<open>windowStart = currentHeight + revisionSubmissionBuffer\<close> fails with
  \<open>ErrLateRevision\<close> and \<open>windowStart = currentHeight + revisionSubmissionBuffer + 1\<close>
  passes; with that window start the result is never \<open>ErrLateRevision\<close>. The three
  calls of the unit test give the results the test expects.
\<close>

theorem renewAllowed_cases:
  "(\<not> acceptingNewContracts
      \<longrightarrow> renewAllowed buffer acceptingNewContracts currentHeight windowStart
            = Some ErrNotAcceptingContracts)
   \<and> (renewAllowed buffer acceptingNewContracts currentHeight windowStart = Some ErrLateRevision
        \<longleftrightarrow> acceptingNewContracts \<and> unat windowStart \<le> unat currentHeight + unat buffer)
   \<and> (renewAllowed buffer acceptingNewContracts currentHeight windowStart = None
        \<longleftrightarrow> acceptingNewContracts \<and> unat windowStart > unat currentHeight + unat buffer)
   \<and> (unat windowStart = unat currentHeight + unat buffer
        \<longrightarrow> renewAllowed buffer True currentHeight windowStart = Some ErrLateRevision)
   \<and> (unat windowStart = unat currentHeight + unat buffer + 1
        \<longrightarrow> renewAllowed buffer True currentHeight windowStart = None
          \<and> renewAllowed buffer acceptingNewContracts currentHeight windowStart
              \<noteq> Some ErrLateRevision)
   \<and> (buffer \<noteq> - 1
        \<longrightarrow> renewAllowed buffer True 0 (buffer + 1) = None
          \<and> renewAllowed buffer False 0 (buffer + 1) = Some ErrNotAcceptingContracts)
   \<and> renewAllowed buffer True 0 buffer = Some ErrLateRevision"
proof -
  have t: "buffer \<noteq> - 1 \<Longrightarrow> \<not> unat (buffer + 1) \<le> unat buffer"
    using word_lt_succ [of buffer] by (simp add: word_less_nat_alt)
  show ?thesis
    by (simp add: renewAllowed_def t)
qed

text \<open>
  The theorem at buffer 3 and current height 0: a host that is not accepting, and an
  accepting host with window starts 3 and 4.
\<close>

theorem renewAllowed_cases_witness:
  "renewAllowed 3 False 0 4 = Some ErrNotAcceptingContracts
   \<and> unat (3 :: 64 word) = unat (0 :: 64 word) + unat (3 :: 64 word)
   \<and> renewAllowed 3 True 0 3 = Some ErrLateRevision
   \<and> unat (4 :: 64 word) = unat (0 :: 64 word) + unat (3 :: 64 word) + 1
   \<and> (3 :: 64 word) \<noteq> - 1
   \<and> renewAllowed 3 True 0 4 = None"
  using renewAllowed_cases [of False 3 0 4] renewAllowed_cases [of True 3 0 3]
    renewAllowed_cases [of True 3 0 4]
  by simp

text \<open>
  Once the gates before the pricing derivation pass and the expected collateral is
  computed, the collateral and value gates decide.
\<close>

lemma verifyRenewedContract_after_shape:
  assumes "shape_gates_pass x so fc currentHeight es rpk hpk"
    and "renewContractCollateral x oldRevision es rpcCost fc = Inr expectedCollateral"
  shows "verifyRenewedContract x so fc oldRevision currentHeight hs es rpcCost rpk hpk lockedCollateral =
    (case RenewBaseCosts x oldRevision es rpcCost (WindowStart fc) of
       (basePrice, baseCollateral) \<Rightarrow>
         if expectedCollateral > MaxCollateral es then Some errMaxCollateralReached
         else if lockedCollateral + expectedCollateral > CollateralBudget hs
           then Some errCollateralBudgetExceeded
         else if Value (ValidProofOutputs fc ! 1) < ContractPrice es + basePrice
           then Some ErrLowHostValidOutput
         else if Value (MissedProofOutputs fc ! 1)
                  < Value (ValidProofOutputs fc ! 1) - baseCollateral - basePrice
           then Some ErrLowHostMissedOutput
         else if Value (MissedProofOutputs fc ! 2) < baseCollateral + basePrice
           then Some ErrLowVoidOutput
         else None)"
  using assms
  by (simp add: verifyRenewedContract_def shape_gates_pass_def currency_defs not_le not_less
      split: prod.split)

text \<open>
  C8. For a renewal that passes the gates before the pricing derivation and whose
  expected collateral is computed, \<open>verifyRenewedContract\<close> fails with
  \<open>errMaxCollateralReached\<close> exactly when the expected collateral exceeds the host's
  \<open>MaxCollateral\<close>: it does with \<open>MaxCollateral\<close> one below the expected collateral,
  and it does not with \<open>MaxCollateral\<close> equal to it. When the expected collateral is
  within \<open>MaxCollateral\<close>, it fails with \<open>errCollateralBudgetExceeded\<close> exactly when the
  locked collateral plus the expected collateral exceeds the host's \<open>CollateralBudget\<close>.
\<close>

theorem collateral_gates:
  assumes "shape_gates_pass x so fc currentHeight es rpk hpk"
    and "renewContractCollateral x oldRevision es rpcCost fc = Inr expectedCollateral"
  shows "(verifyRenewedContract x so fc oldRevision currentHeight hs es rpcCost rpk hpk lockedCollateral
            = Some errMaxCollateralReached
          \<longleftrightarrow> expectedCollateral > MaxCollateral es)
       \<and> (0 < expectedCollateral \<and> MaxCollateral es = expectedCollateral - 1
          \<longrightarrow> verifyRenewedContract x so fc oldRevision currentHeight hs es rpcCost rpk hpk
                lockedCollateral = Some errMaxCollateralReached)
       \<and> (MaxCollateral es = expectedCollateral
          \<longrightarrow> verifyRenewedContract x so fc oldRevision currentHeight hs es rpcCost rpk hpk
                lockedCollateral \<noteq> Some errMaxCollateralReached)
       \<and> (expectedCollateral \<le> MaxCollateral es
          \<longrightarrow> (verifyRenewedContract x so fc oldRevision currentHeight hs es rpcCost rpk hpk
                  lockedCollateral = Some errCollateralBudgetExceeded
                \<longleftrightarrow> lockedCollateral + expectedCollateral > CollateralBudget hs))"
  unfolding verifyRenewedContract_after_shape [OF assms]
  by (auto split: prod.splits)

text \<open>
  The theorem at a renewal with expected collateral 13: \<open>MaxCollateral\<close> 12 fails,
  \<open>MaxCollateral\<close> 13 passes, and with 88 already locked against a budget of 100 the
  budget is exceeded.
\<close>

theorem collateral_gates_witness:
  "shape_gates_pass example_renew_externals example_obligation example_fc 0 (example_settings 12)
      example_rpk example_hpk
   \<and> renewContractCollateral example_renew_externals (example_fcr 1 [10, 20] [10, 19, 0])
        (example_settings 12) 1 example_fc = Inr 13
   \<and> MaxCollateral (example_settings 12) = 13 - 1
   \<and> verifyRenewedContract example_renew_externals example_obligation example_fc
        (example_fcr 1 [10, 20] [10, 19, 0]) 0 \<lparr>CollateralBudget = 100\<rparr> (example_settings 12) 1
        example_rpk example_hpk 0 = Some errMaxCollateralReached
   \<and> shape_gates_pass example_renew_externals example_obligation example_fc 0 (example_settings 13)
      example_rpk example_hpk
   \<and> renewContractCollateral example_renew_externals (example_fcr 1 [10, 20] [10, 19, 0])
        (example_settings 13) 1 example_fc = Inr 13
   \<and> verifyRenewedContract example_renew_externals example_obligation example_fc
        (example_fcr 1 [10, 20] [10, 19, 0]) 0 \<lparr>CollateralBudget = 100\<rparr> (example_settings 13) 1
        example_rpk example_hpk 0 = None
   \<and> verifyRenewedContract example_renew_externals example_obligation example_fc
        (example_fcr 1 [10, 20] [10, 19, 0]) 0 \<lparr>CollateralBudget = 100\<rparr> (example_settings 13) 1
        example_rpk example_hpk 88 = Some errCollateralBudgetExceeded"
proof -
  have s12: "shape_gates_pass example_renew_externals example_obligation example_fc 0
      (example_settings 12) example_rpk example_hpk"
    by (simp add: shape_gates_pass_def renew_example_defs)
  have s13: "shape_gates_pass example_renew_externals example_obligation example_fc 0
      (example_settings 13) example_rpk example_hpk"
    by (simp add: shape_gates_pass_def renew_example_defs)
  have c12: "renewContractCollateral example_renew_externals (example_fcr 1 [10, 20] [10, 19, 0])
        (example_settings 12) 1 example_fc = Inr 13"
    by (simp add: renew_example_defs)
  have c13: "renewContractCollateral example_renew_externals (example_fcr 1 [10, 20] [10, 19, 0])
        (example_settings 13) 1 example_fc = Inr 13"
    by (simp add: renew_example_defs)
  show ?thesis
    using s12 s13 c12 c13
      collateral_gates [OF s12 c12, of "\<lparr>CollateralBudget = 100\<rparr>" 0]
      collateral_gates [OF s13 c13, of "\<lparr>CollateralBudget = 100\<rparr>" 0]
      collateral_gates [OF s13 c13, of "\<lparr>CollateralBudget = 100\<rparr>" 88]
    by (simp add: verifyRenewedContract_def renew_example_defs currency_defs)
qed

end
